theory Spec2Isabelle
  imports Main
begin

section \<open>Python values, exceptions and objects\<close>

text \<open>
  The validated-attribute demonstrations live in five modules, abbreviated in the names
  below where two modules use the same class name:
  \<^item> \<open>pb\<close>: \<^verbatim>\<open>property_bulkfood.py\<close> (\<^verbatim>\<open>LineItem\<close>, \<^verbatim>\<open>LineItemClassic\<close>);
  \<^item> \<open>pf\<close>: \<^verbatim>\<open>property_factory.py\<close> (\<^verbatim>\<open>quantity\<close>, \<^verbatim>\<open>quantity_auto\<close>, \<^verbatim>\<open>LineItem\<close>,
    \<^verbatim>\<open>LineItemAuto\<close>);
  \<^item> \<open>db\<close>: \<^verbatim>\<open>descriptor_bulkfood.py\<close> (the set-only \<^verbatim>\<open>Quantity\<close>, \<^verbatim>\<open>QuantityAuto\<close>,
    \<^verbatim>\<open>LineItem\<close>, \<^verbatim>\<open>LineItemAuto\<close>);
  \<^item> \<open>db2\<close>: \<^verbatim>\<open>descriptor_bulkfood2.py\<close> (\<^verbatim>\<open>AutoStorage\<close>, \<^verbatim>\<open>Validated\<close>, \<^verbatim>\<open>Quantity\<close>,
    \<^verbatim>\<open>NonBlank\<close>, \<^verbatim>\<open>entity\<close>, \<^verbatim>\<open>LineItem\<close>);
  \<^item> \<open>mb\<close>: \<^verbatim>\<open>metaclass_bulkfood.py\<close> (\<^verbatim>\<open>EntityMeta\<close>, \<^verbatim>\<open>EntityMeta2\<close>, \<^verbatim>\<open>Entity2\<close>,
    \<^verbatim>\<open>LineItem\<close>).

  A number is one of Python's unbounded integers (\<open>int\<close>), a \<^verbatim>\<open>bool\<close>, or a \<^verbatim>\<open>float\<close>,
  an IEEE 754 double. A string is a list of characters with code points below 256.
\<close>

subsection \<open>Floats\<close>

text \<open>A double: sign (\<open>True\<close> for negative), mantissa \<open>m\<close> and exponent \<open>e\<close> of the finite
  value \<open>m * 2 ^ e\<close>; an infinity with its sign; or not-a-number. \<^verbatim>\<open>-0.0\<close> is
  \<open>Finite True 0 0\<close>, and the literal \<^verbatim>\<open>6.95\<close> is \<open>Finite False 7825004352556237 (- 50)\<close>.\<close>

datatype pyfloat = Finite bool nat int | Infinity bool | NaN

text \<open>\<^verbatim>\<open>x > 0\<close> and \<^verbatim>\<open>x <= 0\<close> on a float: both are false of not-a-number.\<close>

fun float_gt0 :: "pyfloat \<Rightarrow> bool" where
  "float_gt0 (Finite s m e) = (\<not> s \<and> 0 < m)"
| "float_gt0 (Infinity s) = (\<not> s)"
| "float_gt0 NaN = False"

fun float_le0 :: "pyfloat \<Rightarrow> bool" where
  "float_le0 (Finite s m e) = (s \<or> m = 0)"
| "float_le0 (Infinity s) = s"
| "float_le0 NaN = False"

text \<open>\<^verbatim>\<open>int.bit_length\<close>, and \<open>m / 2 ^ k\<close> rounded to the nearest integer, a tie to the
  even one.\<close>

fun bit_length :: "nat \<Rightarrow> nat" where
  "bit_length n = (if n = 0 then 0 else Suc (bit_length (n div 2)))"

definition round_half_even :: "nat \<Rightarrow> nat \<Rightarrow> nat" where
  "round_half_even m k =
     (let q = m div 2 ^ k; r = m mod 2 ^ k
      in if 2 * r > 2 ^ k \<or> (2 * r = 2 ^ k \<and> odd q) then q + 1 else q)"

text \<open>The double nearest to \<open>m * 2 ^ e\<close>, with sign \<open>s\<close>: the mantissa is brought to 53
  bits, or to fewer where the exponent would fall below \<open>-1074\<close> (a subnormal), with one
  rounding; a value of \<open>2 ^ 1024\<close> or more becomes an infinity.\<close>

definition make_float :: "bool \<Rightarrow> nat \<Rightarrow> int \<Rightarrow> pyfloat" where
  "make_float s m e =
     (if m = 0 then Finite s 0 0
      else
        let k = max (int (bit_length m) - 53) (- 1074 - e);
            q = (if 0 \<le> k then round_half_even m (nat k) else m * 2 ^ nat (- k));
            (q', e') = (if q = 2 ^ 53 then (2 ^ 52, e + k + 1) else (q, e + k))
        in if q' = 0 then Finite s 0 0
           else if 971 < e' then Infinity s
           else Finite s q' e')"

text \<open>The product of two floats, and the conversion of an integer to a float, which
  Python refuses with \<^verbatim>\<open>OverflowError\<close> where the result would be an infinity.\<close>

fun float_mul :: "pyfloat \<Rightarrow> pyfloat \<Rightarrow> pyfloat" where
  "float_mul NaN y = NaN"
| "float_mul x NaN = NaN"
| "float_mul (Infinity s) (Infinity t) = Infinity (s \<noteq> t)"
| "float_mul (Infinity s) (Finite t m e) = (if m = 0 then NaN else Infinity (s \<noteq> t))"
| "float_mul (Finite s m e) (Infinity t) = (if m = 0 then NaN else Infinity (s \<noteq> t))"
| "float_mul (Finite s m e) (Finite t n f) = make_float (s \<noteq> t) (m * n) (e + f)"

definition float_of_int :: "int \<Rightarrow> pyfloat" where
  "float_of_int i = make_float (i < 0) (nat \<bar>i\<bar>) 0"

subsection \<open>Descriptors, values and exceptions\<close>

text \<open>The descriptor classes. \<open>Quantity_db\<close> is the set-only \<^verbatim>\<open>Quantity\<close> of
  \<^verbatim>\<open>descriptor_bulkfood.py\<close>; \<open>Quantity\<close> is the \<^verbatim>\<open>Validated\<close> subclass of
  \<^verbatim>\<open>descriptor_bulkfood2.py\<close>.\<close>

datatype dclass = Quantity_db | QuantityAuto | AutoStorage | Validated | Quantity | NonBlank

text \<open>\<^verbatim>\<open>cls.__name__\<close>.\<close>

fun cls_name :: "dclass \<Rightarrow> string" where
  "cls_name Quantity_db = ''Quantity''"
| "cls_name QuantityAuto = ''QuantityAuto''"
| "cls_name AutoStorage = ''AutoStorage''"
| "cls_name Validated = ''Validated''"
| "cls_name Quantity = ''Quantity''"
| "cls_name NonBlank = ''NonBlank''"

text \<open>The method resolution order of each descriptor class (\<^verbatim>\<open>abc.ABC\<close> and
  \<^verbatim>\<open>object\<close>, which define none of the attributes looked up here, are left out).\<close>

fun mro :: "dclass \<Rightarrow> dclass list" where
  "mro Quantity_db = [Quantity_db]"
| "mro QuantityAuto = [QuantityAuto]"
| "mro AutoStorage = [AutoStorage]"
| "mro Validated = [Validated, AutoStorage]"
| "mro Quantity = [Quantity, Validated, AutoStorage]"
| "mro NonBlank = [NonBlank, Validated, AutoStorage]"

text \<open>\<^verbatim>\<open>isinstance(attr, Validated)\<close> for a descriptor of class \<open>c\<close>.\<close>

definition isinstance_Validated :: "dclass \<Rightarrow> bool" where
  "isinstance_Validated c = (Validated \<in> set (mro c))"

text \<open>A descriptor instance: its class and its one instance attribute.\<close>

record descriptor =
  dclass :: dclass
  storage_name :: string

text \<open>The getter and setter functions wrapped by the \<^verbatim>\<open>property\<close> objects of the source.
  The closures made by the two factories of \<^verbatim>\<open>property_factory.py\<close> carry the
  \<^verbatim>\<open>storage_name\<close> they captured.\<close>

datatype getter =
    weight_getter              \<comment> \<open>\<^verbatim>\<open>LineItem.weight\<close> under \<^verbatim>\<open>@property\<close>, pb\<close>
  | get_weight                 \<comment> \<open>\<^verbatim>\<open>LineItemClassic.get_weight\<close>, pb\<close>
  | qty_getter string          \<comment> \<open>\<^verbatim>\<open>qty_getter\<close> of \<^verbatim>\<open>quantity(storage_name)\<close>, pf\<close>
  | qty_getter_auto string     \<comment> \<open>\<^verbatim>\<open>qty_getter\<close> of \<^verbatim>\<open>quantity_auto()\<close>, pf\<close>

datatype setter =
    weight_setter              \<comment> \<open>\<^verbatim>\<open>LineItem.weight\<close> under \<^verbatim>\<open>@weight.setter\<close>, pb\<close>
  | set_weight                 \<comment> \<open>\<^verbatim>\<open>LineItemClassic.set_weight\<close>, pb\<close>
  | qty_setter string          \<comment> \<open>\<^verbatim>\<open>qty_setter\<close> of \<^verbatim>\<open>quantity(storage_name)\<close>, pf\<close>
  | qty_setter_auto string     \<comment> \<open>\<^verbatim>\<open>qty_setter\<close> of \<^verbatim>\<open>quantity_auto()\<close>, pf\<close>

datatype pyval =
    VNone
  | VBool bool
  | VInt int
  | VFloat pyfloat
  | VStr string
  | VDescr descriptor            \<comment> \<open>an instance of one of the descriptor classes\<close>
  | VProperty getter setter      \<comment> \<open>\<^verbatim>\<open>property(fget, fset)\<close>\<close>
  | VFunction string             \<comment> \<open>a function defined in a class body\<close>

datatype error =
    ValueError string
  | TypeError
  | AttributeError string
  | KeyError string
  | OverflowError
  | RecursionError

text \<open>An instance's \<^verbatim>\<open>__dict__\<close>, and the namespace of a class in definition order,
  each name with the current state of the object bound to it. The namespace lists the
  names the class body binds; the entries the interpreter adds by itself (\<^verbatim>\<open>__module__\<close>,
  \<^verbatim>\<open>__qualname__\<close>, \<^verbatim>\<open>__doc__\<close>, \<^verbatim>\<open>__dict__\<close>, \<^verbatim>\<open>__weakref__\<close>) are left out.\<close>

type_synonym inst_dict = "string \<rightharpoonup> pyval"
type_synonym namespace = "(string \<times> pyval) list"

text \<open>While a class is created, the objects its body binds are shared and mutable: the
  store holds every object by address, a class body binds each name to an address, and
  two names may hold the same one. An address outside the store reads as \<open>None\<close>. The
  namespace of a class is its body with each address replaced by the object there.\<close>

type_synonym addr = nat
type_synonym heap = "pyval list"
type_synonym body = "(string \<times> addr) list"

definition obj :: "heap \<Rightarrow> addr \<Rightarrow> pyval" where
  "obj h a = (if a < length h then h ! a else VNone)"

definition alloc :: "heap \<Rightarrow> pyval \<Rightarrow> addr \<times> heap" where
  "alloc h v = (length h, h @ [v])"

definition class_namespace :: "heap \<Rightarrow> body \<Rightarrow> namespace" where
  "class_namespace h b = map (\<lambda>(key, a). (key, obj h a)) b"

text \<open>A statement that mutates an instance returns the instance as it is afterwards,
  and the exception it raised, if any.\<close>

type_synonym outcome = "inst_dict \<times> error option"

definition and_then :: "outcome \<Rightarrow> (inst_dict \<Rightarrow> outcome) \<Rightarrow> outcome" where
  "and_then r f = (case r of (inst, Some e) \<Rightarrow> (inst, Some e) | (inst, None) \<Rightarrow> f inst)"

definition bind_sum :: "error + 'a \<Rightarrow> ('a \<Rightarrow> error + 'b) \<Rightarrow> error + 'b" where
  "bind_sum m f = (case m of Inl e \<Rightarrow> Inl e | Inr x \<Rightarrow> f x)"

subsection \<open>Built-in operations on values\<close>

text \<open>\<^verbatim>\<open>value > 0\<close> and \<^verbatim>\<open>value <= 0\<close>: only numbers compare with \<open>0\<close>; a \<^verbatim>\<open>bool\<close> is
  the integer \<open>1\<close> or \<open>0\<close>.\<close>

fun py_gt0 :: "pyval \<Rightarrow> error + bool" where
  "py_gt0 (VInt n) = Inr (n > 0)"
| "py_gt0 (VBool b) = Inr b"
| "py_gt0 (VFloat x) = Inr (float_gt0 x)"
| "py_gt0 _ = Inl TypeError"

fun py_le0 :: "pyval \<Rightarrow> error + bool" where
  "py_le0 (VInt n) = Inr (n \<le> 0)"
| "py_le0 (VBool b) = Inr (\<not> b)"
| "py_le0 (VFloat x) = Inr (float_le0 x)"
| "py_le0 _ = Inl TypeError"

text \<open>\<^verbatim>\<open>a * b\<close>. Two integers give their product; an integer and a float give the product
  of floats, after the integer is converted; a string and an integer give the string
  repeated; everything else is a \<^verbatim>\<open>TypeError\<close>.\<close>

fun as_int :: "pyval \<Rightarrow> int option" where
  "as_int (VInt n) = Some n"
| "as_int (VBool b) = Some (if b then 1 else 0)"
| "as_int _ = None"

definition int_to_float :: "int \<Rightarrow> error + pyfloat" where
  "int_to_float i =
     (case float_of_int i of Infinity s \<Rightarrow> Inl OverflowError | x \<Rightarrow> Inr x)"

fun py_mul :: "pyval \<Rightarrow> pyval \<Rightarrow> error + pyval" where
  "py_mul (VFloat x) (VFloat y) = Inr (VFloat (float_mul x y))"
| "py_mul (VFloat x) b =
     (case as_int b of
        Some j \<Rightarrow> (case int_to_float j of Inl e \<Rightarrow> Inl e | Inr y \<Rightarrow> Inr (VFloat (float_mul x y)))
      | None \<Rightarrow> Inl TypeError)"
| "py_mul a (VFloat y) =
     (case as_int a of
        Some i \<Rightarrow> (case int_to_float i of Inl e \<Rightarrow> Inl e | Inr x \<Rightarrow> Inr (VFloat (float_mul x y)))
      | None \<Rightarrow> Inl TypeError)"
| "py_mul (VStr s) b =
     (case as_int b of
        Some j \<Rightarrow> Inr (VStr (concat (replicate (nat j) s)))
      | None \<Rightarrow> Inl TypeError)"
| "py_mul a (VStr s) =
     (case as_int a of
        Some i \<Rightarrow> Inr (VStr (concat (replicate (nat i) s)))
      | None \<Rightarrow> Inl TypeError)"
| "py_mul a b =
     (case (as_int a, as_int b) of
        (Some i, Some j) \<Rightarrow> Inr (VInt (i * j))
      | _ \<Rightarrow> Inl TypeError)"

text \<open>A value of one of the number types.\<close>

fun is_number :: "pyval \<Rightarrow> bool" where
  "is_number (VInt n) = True"
| "is_number (VBool b) = True"
| "is_number (VFloat x) = True"
| "is_number _ = False"

text \<open>\<^verbatim>\<open>str.isspace\<close> on one character, for code points below 256, and \<^verbatim>\<open>str.strip()\<close>.\<close>

definition isspace :: "char \<Rightarrow> bool" where
  "isspace c = ((of_char c :: nat) \<in> set [9, 10, 11, 12, 13, 28, 29, 30, 31, 32, 133, 160])"

definition strip :: "string \<Rightarrow> string" where
  "strip s = rev (dropWhile isspace (rev (dropWhile isspace s)))"

text \<open>\<^verbatim>\<open>'{}'.format(n)\<close> for a natural number: its decimal digits.\<close>

fun str_nat :: "nat \<Rightarrow> string" where
  "str_nat n =
     (if n < 10 then [''0123456789'' ! n]
      else str_nat (n div 10) @ [''0123456789'' ! (n mod 10)])"

section \<open>The descriptor classes\<close>

subsection \<open>\<^verbatim>\<open>descriptor_bulkfood.py\<close>\<close>

text \<open>\<^verbatim>\<open>Quantity.__init__(self, storage_name)\<close>.\<close>

definition Quantity_db_init :: "string \<Rightarrow> descriptor" where
  "Quantity_db_init name = \<lparr>dclass = Quantity_db, storage_name = name\<rparr>"

text \<open>\<^verbatim>\<open>Quantity.__set__\<close>: writes \<^verbatim>\<open>instance.__dict__\<close> directly.\<close>

definition Quantity_db_set :: "descriptor \<Rightarrow> inst_dict \<Rightarrow> pyval \<Rightarrow> outcome" where
  "Quantity_db_set self inst v =
     (case py_gt0 v of
        Inl e \<Rightarrow> (inst, Some e)
      | Inr True \<Rightarrow> (inst(storage_name self \<mapsto> v), None)
      | Inr False \<Rightarrow> (inst, Some (ValueError ''value must be > 0'')))"

text \<open>The class attribute \<^verbatim>\<open>__counter\<close> of a descriptor class (mangled to
  \<^verbatim>\<open>_QuantityAuto__counter\<close>, \<^verbatim>\<open>_AutoStorage__counter\<close>): each class either has its own or
  inherits the one found first along its method resolution order.\<close>

type_synonym counters = "dclass \<rightharpoonup> nat"

fun first_counter :: "counters \<Rightarrow> dclass list \<Rightarrow> nat option" where
  "first_counter st [] = None"
| "first_counter st (c # cs) = (case st c of Some k \<Rightarrow> Some k | None \<Rightarrow> first_counter st cs)"

definition get_counter :: "counters \<Rightarrow> dclass \<Rightarrow> nat option" where
  "get_counter st cls = first_counter st (mro cls)"

text \<open>\<^verbatim>\<open>QuantityAuto.__init__\<close>; \<open>cls\<close> is \<^verbatim>\<open>self.__class__\<close>. The assignment
  \<^verbatim>\<open>cls.__counter += 1\<close> always writes the attribute of \<open>cls\<close> itself.\<close>

definition QuantityAuto_init :: "counters \<Rightarrow> dclass \<Rightarrow> error + (descriptor \<times> counters)" where
  "QuantityAuto_init st cls =
     (let prefix = cls_name cls in
      case get_counter st cls of
        None \<Rightarrow> Inl (AttributeError ''_QuantityAuto__counter'')
      | Some index \<Rightarrow>
          Inr (\<lparr>dclass = cls, storage_name = ''_'' @ prefix @ ''#'' @ str_nat index\<rparr>,
               st(cls \<mapsto> index + 1)))"

text \<open>\<^verbatim>\<open>QuantityAuto.__get__\<close> and \<^verbatim>\<open>QuantityAuto.__set__\<close>; the built-ins \<^verbatim>\<open>getattr\<close>
  and \<^verbatim>\<open>setattr\<close> they call are parameters. \<open>instance\<close> is \<open>None\<close> when the attribute is
  read through the class.\<close>

definition QuantityAuto_get ::
  "(inst_dict \<Rightarrow> string \<Rightarrow> error + pyval) \<Rightarrow> descriptor \<Rightarrow> inst_dict option \<Rightarrow> error + pyval" where
  "QuantityAuto_get getattr self instance =
     (case instance of
        None \<Rightarrow> Inr (VDescr self)
      | Some inst \<Rightarrow> getattr inst (storage_name self))"

definition QuantityAuto_set ::
  "(inst_dict \<Rightarrow> string \<Rightarrow> pyval \<Rightarrow> outcome) \<Rightarrow> descriptor \<Rightarrow> inst_dict \<Rightarrow> pyval \<Rightarrow> outcome" where
  "QuantityAuto_set setattr self inst v =
     (case py_gt0 v of
        Inl e \<Rightarrow> (inst, Some e)
      | Inr True \<Rightarrow> setattr inst (storage_name self) v
      | Inr False \<Rightarrow> (inst, Some (ValueError ''value must be > 0'')))"

subsection \<open>\<^verbatim>\<open>descriptor_bulkfood2.py\<close>\<close>

text \<open>\<^verbatim>\<open>AutoStorage.__init__\<close>, inherited by \<^verbatim>\<open>Quantity\<close> and \<^verbatim>\<open>NonBlank\<close>.\<close>

definition AutoStorage_init :: "counters \<Rightarrow> dclass \<Rightarrow> error + (descriptor \<times> counters)" where
  "AutoStorage_init st cls =
     (let prefix = cls_name cls in
      case get_counter st cls of
        None \<Rightarrow> Inl (AttributeError ''_AutoStorage__counter'')
      | Some index \<Rightarrow>
          Inr (\<lparr>dclass = cls, storage_name = ''_'' @ prefix @ ''#'' @ str_nat index\<rparr>,
               st(cls \<mapsto> index + 1)))"

text \<open>Calling a class of this module: \<^verbatim>\<open>Validated\<close> is abstract and cannot be
  instantiated.\<close>

definition new_descriptor :: "counters \<Rightarrow> dclass \<Rightarrow> error + (descriptor \<times> counters)" where
  "new_descriptor st cls = (if cls = Validated then Inl TypeError else AutoStorage_init st cls)"

definition AutoStorage_get ::
  "(inst_dict \<Rightarrow> string \<Rightarrow> error + pyval) \<Rightarrow> descriptor \<Rightarrow> inst_dict option \<Rightarrow> error + pyval" where
  "AutoStorage_get getattr self instance =
     (case instance of
        None \<Rightarrow> Inr (VDescr self)
      | Some inst \<Rightarrow> getattr inst (storage_name self))"

definition AutoStorage_set ::
  "(inst_dict \<Rightarrow> string \<Rightarrow> pyval \<Rightarrow> outcome) \<Rightarrow> descriptor \<Rightarrow> inst_dict \<Rightarrow> pyval \<Rightarrow> outcome" where
  "AutoStorage_set setattr self inst v = setattr inst (storage_name self) v"

text \<open>\<^verbatim>\<open>Quantity.validate\<close> and \<^verbatim>\<open>NonBlank.validate\<close>. A value without a \<^verbatim>\<open>strip\<close>
  method raises \<^verbatim>\<open>AttributeError\<close>.\<close>

definition Quantity_validate :: "pyval \<Rightarrow> error + pyval" where
  "Quantity_validate v =
     (case py_le0 v of
        Inl e \<Rightarrow> Inl e
      | Inr True \<Rightarrow> Inl (ValueError ''value must be > 0'')
      | Inr False \<Rightarrow> Inr v)"

definition NonBlank_validate :: "pyval \<Rightarrow> error + pyval" where
  "NonBlank_validate v =
     (case v of
        VStr s \<Rightarrow>
          (let s' = strip s in
           if length s' = 0 then Inl (ValueError ''value cannot be empty or blank'')
           else Inr (VStr s'))
      | _ \<Rightarrow> Inl (AttributeError ''strip''))"

text \<open>\<^verbatim>\<open>self.validate(instance, value)\<close>: the method of the descriptor's class. The abstract
  \<^verbatim>\<open>Validated.validate\<close> has a docstring for a body and returns \<open>None\<close>; the other classes
  have no such method.\<close>

definition validate :: "descriptor \<Rightarrow> pyval \<Rightarrow> error + pyval" where
  "validate self v =
     (case dclass self of
        Quantity \<Rightarrow> Quantity_validate v
      | NonBlank \<Rightarrow> NonBlank_validate v
      | Validated \<Rightarrow> Inr VNone
      | _ \<Rightarrow> Inl (AttributeError ''validate''))"

text \<open>\<^verbatim>\<open>Validated.__set__\<close>: validate, then \<^verbatim>\<open>super().__set__\<close>.\<close>

definition Validated_set ::
  "(inst_dict \<Rightarrow> string \<Rightarrow> pyval \<Rightarrow> outcome) \<Rightarrow> descriptor \<Rightarrow> inst_dict \<Rightarrow> pyval \<Rightarrow> outcome" where
  "Validated_set setattr self inst v =
     (case validate self v of
        Inl e \<Rightarrow> (inst, Some e)
      | Inr v' \<Rightarrow> AutoStorage_set setattr self inst v')"

subsection \<open>The property getters and setters\<close>

text \<open>Calling a getter on an instance (\<open>name\<close> is the closure's \<^verbatim>\<open>storage_name\<close>). \<^verbatim>\<open>self.__weight\<close> inside \<^verbatim>\<open>LineItem\<close> is the
  attribute \<^verbatim>\<open>_LineItem__weight\<close>; \<^verbatim>\<open>quantity\<close>'s getter reads \<^verbatim>\<open>instance.__dict__\<close>.\<close>

fun call_getter ::
  "(inst_dict \<Rightarrow> string \<Rightarrow> error + pyval) \<Rightarrow> getter \<Rightarrow> inst_dict \<Rightarrow> error + pyval" where
  "call_getter getattr weight_getter self = getattr self ''_LineItem__weight''"
| "call_getter getattr get_weight self = getattr self ''_LineItemClassic__weight''"
| "call_getter getattr (qty_getter name) inst =
     (case inst name of None \<Rightarrow> Inl (KeyError name) | Some v \<Rightarrow> Inr v)"
| "call_getter getattr (qty_getter_auto name) inst = getattr inst name"

fun call_setter ::
  "(inst_dict \<Rightarrow> string \<Rightarrow> pyval \<Rightarrow> outcome) \<Rightarrow> setter \<Rightarrow> inst_dict \<Rightarrow> pyval \<Rightarrow> outcome" where
  "call_setter setattr weight_setter self v =
     (case py_gt0 v of
        Inl e \<Rightarrow> (self, Some e)
      | Inr True \<Rightarrow> setattr self ''_LineItem__weight'' v
      | Inr False \<Rightarrow> (self, Some (ValueError ''value must be > 0'')))"
| "call_setter setattr set_weight self v =
     (case py_gt0 v of
        Inl e \<Rightarrow> (self, Some e)
      | Inr True \<Rightarrow> setattr self ''_LineItemClassic__weight'' v
      | Inr False \<Rightarrow> (self, Some (ValueError ''value must be > 0'')))"
| "call_setter setattr (qty_setter name) inst v =
     (case py_gt0 v of
        Inl e \<Rightarrow> (inst, Some e)
      | Inr True \<Rightarrow> (inst(name \<mapsto> v), None)
      | Inr False \<Rightarrow> (inst, Some (ValueError ''value must be > 0'')))"
| "call_setter setattr (qty_setter_auto name) inst v =
     (case py_gt0 v of
        Inl e \<Rightarrow> (inst, Some e)
      | Inr True \<Rightarrow> setattr inst name v
      | Inr False \<Rightarrow> (inst, Some (ValueError ''value must be > 0'')))"

text \<open>\<^verbatim>\<open>quantity(storage_name)\<close> and \<^verbatim>\<open>quantity_auto()\<close> of \<^verbatim>\<open>property_factory.py\<close>. The
  function attribute \<^verbatim>\<open>quantity_auto.counter\<close> is \<open>None\<close> while it is undefined.\<close>

definition quantity :: "string \<Rightarrow> pyval" where
  "quantity name = VProperty (qty_getter name) (qty_setter name)"

definition quantity_auto :: "nat option \<Rightarrow> pyval \<times> nat option" where
  "quantity_auto counter =
     (let counter' = (case counter of Some c \<Rightarrow> c + 1 | None \<Rightarrow> 0);
          name = ''_'' @ ''quantity_auto'' @ '':'' @ str_nat counter'
      in (VProperty (qty_getter_auto name) (qty_setter_auto name),
          Some counter'))"

section \<open>Attribute access\<close>

text \<open>
  The interpreter's attribute protocol, as \<^verbatim>\<open>descriptor_kinds.py\<close> describes it. A class
  attribute whose type defines \<^verbatim>\<open>__set__\<close> is an overriding descriptor: assignment through
  an instance calls its \<^verbatim>\<open>__set__\<close>, and a read calls its \<^verbatim>\<open>__get__\<close> when it has one. An
  overriding descriptor without \<^verbatim>\<open>__get__\<close> is shadowed on reads by a namesake entry of
  the instance's \<^verbatim>\<open>__dict__\<close>. Every other class attribute is shadowed by the instance's
  entry and found in the class otherwise.

  \<^verbatim>\<open>getattr\<close> and \<^verbatim>\<open>setattr\<close> call descriptor methods that call \<^verbatim>\<open>getattr\<close> and
  \<^verbatim>\<open>setattr\<close> again; the first argument bounds the depth of these calls, as the
  interpreter's recursion limit does.
\<close>

text \<open>Which descriptor classes define \<^verbatim>\<open>__get__\<close>.\<close>

fun has_get :: "dclass \<Rightarrow> bool" where
  "has_get Quantity_db = False"
| "has_get _ = True"

text \<open>The \<^verbatim>\<open>__get__\<close> and \<^verbatim>\<open>__set__\<close> of a descriptor, by its class.\<close>

definition descr_get ::
  "(inst_dict \<Rightarrow> string \<Rightarrow> error + pyval) \<Rightarrow> descriptor \<Rightarrow> inst_dict option \<Rightarrow> error + pyval" where
  "descr_get getattr d instance =
     (case dclass d of
        Quantity_db \<Rightarrow> Inl (AttributeError ''__get__'')
      | QuantityAuto \<Rightarrow> QuantityAuto_get getattr d instance
      | _ \<Rightarrow> AutoStorage_get getattr d instance)"

definition descr_set ::
  "(inst_dict \<Rightarrow> string \<Rightarrow> pyval \<Rightarrow> outcome) \<Rightarrow> descriptor \<Rightarrow> inst_dict \<Rightarrow> pyval \<Rightarrow> outcome" where
  "descr_set setattr d inst v =
     (case dclass d of
        Quantity_db \<Rightarrow> Quantity_db_set d inst v
      | QuantityAuto \<Rightarrow> QuantityAuto_set setattr d inst v
      | AutoStorage \<Rightarrow> AutoStorage_set setattr d inst v
      | _ \<Rightarrow> Validated_set setattr d inst v)"

text \<open>\<^verbatim>\<open>getattr(inst, name)\<close>, that is \<^verbatim>\<open>inst.name\<close>, for an instance of the class with
  namespace \<open>ns\<close>.\<close>

fun py_getattr :: "nat \<Rightarrow> namespace \<Rightarrow> inst_dict \<Rightarrow> string \<Rightarrow> error + pyval" where
  "py_getattr 0 ns inst name = Inl RecursionError"
| "py_getattr (Suc n) ns inst name =
     (case map_of ns name of
        Some (VDescr d) \<Rightarrow>
          if has_get (dclass d) then descr_get (py_getattr n ns) d (Some inst)
          else (case inst name of Some v \<Rightarrow> Inr v | None \<Rightarrow> Inr (VDescr d))
      | Some (VProperty fget fset) \<Rightarrow> call_getter (py_getattr n ns) fget inst
      | Some c \<Rightarrow> (case inst name of Some v \<Rightarrow> Inr v | None \<Rightarrow> Inr c)
      | None \<Rightarrow> (case inst name of Some v \<Rightarrow> Inr v | None \<Rightarrow> Inl (AttributeError name)))"

text \<open>\<^verbatim>\<open>setattr(inst, name, v)\<close>, that is \<^verbatim>\<open>inst.name = v\<close>.\<close>

fun py_setattr :: "nat \<Rightarrow> namespace \<Rightarrow> inst_dict \<Rightarrow> string \<Rightarrow> pyval \<Rightarrow> outcome" where
  "py_setattr 0 ns inst name v = (inst, Some RecursionError)"
| "py_setattr (Suc n) ns inst name v =
     (case map_of ns name of
        Some (VDescr d) \<Rightarrow> descr_set (py_setattr n ns) d inst v
      | Some (VProperty fget fset) \<Rightarrow> call_setter (py_setattr n ns) fset inst v
      | _ \<Rightarrow> (inst(name \<mapsto> v), None))"

text \<open>Reading an attribute through the class: \<^verbatim>\<open>__get__\<close> receives \<open>None\<close> for the
  instance, a property returns itself, and an attribute without \<^verbatim>\<open>__get__\<close> is returned
  as it is.\<close>

definition class_getattr :: "nat \<Rightarrow> namespace \<Rightarrow> string \<Rightarrow> error + pyval" where
  "class_getattr depth ns name =
     (case map_of ns name of
        Some (VDescr d) \<Rightarrow>
          if has_get (dclass d) then descr_get (py_getattr depth ns) d None
          else Inr (VDescr d)
      | Some c \<Rightarrow> Inr c
      | None \<Rightarrow> Inl (AttributeError name))"

section \<open>The managed classes\<close>

text \<open>\<^verbatim>\<open>subtotal\<close> has the same body in every \<^verbatim>\<open>LineItem\<close> class:
  \<^verbatim>\<open>return self.weight * self.price\<close>. \<open>cls\<close> is the namespace of the class of \<open>self\<close>.\<close>

definition subtotal :: "nat \<Rightarrow> namespace \<Rightarrow> inst_dict \<Rightarrow> error + pyval" where
  "subtotal depth cls self =
     bind_sum (py_getattr depth cls self ''weight'') (\<lambda>w.
     bind_sum (py_getattr depth cls self ''price'') (\<lambda>p.
     py_mul w p))"

text \<open>The call \<^verbatim>\<open>self.subtotal()\<close>: the attribute is looked up first. An entry of the
  instance's \<^verbatim>\<open>__dict__\<close> shadows the method, and none of the values here can be called
  that way.\<close>

definition call_subtotal :: "nat \<Rightarrow> namespace \<Rightarrow> inst_dict \<Rightarrow> error + pyval" where
  "call_subtotal depth cls self =
     (case py_getattr depth cls self ''subtotal'' of
        Inl e \<Rightarrow> Inl e
      | Inr m \<Rightarrow>
          if self ''subtotal'' = None \<and> m = VFunction ''subtotal''
          then subtotal depth cls self
          else Inl TypeError)"

subsection \<open>\<^verbatim>\<open>property_bulkfood.py\<close>\<close>

definition LineItem_pb :: namespace where
  "LineItem_pb =
     [(''__init__'', VFunction ''__init__''),
      (''subtotal'', VFunction ''subtotal''),
      (''weight'', VProperty weight_getter weight_setter)]"

definition LineItem_pb_init :: "nat \<Rightarrow> pyval \<Rightarrow> pyval \<Rightarrow> pyval \<Rightarrow> outcome" where
  "LineItem_pb_init depth description weight price =
     and_then (and_then
       (py_setattr depth LineItem_pb Map.empty ''description'' description)
       (\<lambda>self. py_setattr depth LineItem_pb self ''weight'' weight))
       (\<lambda>self. py_setattr depth LineItem_pb self ''price'' price)"

definition LineItemClassic :: namespace where
  "LineItemClassic =
     [(''__init__'', VFunction ''__init__''),
      (''subtotal'', VFunction ''subtotal''),
      (''get_weight'', VFunction ''get_weight''),
      (''set_weight'', VFunction ''set_weight''),
      (''weight'', VProperty get_weight set_weight)]"

definition LineItemClassic_init :: "nat \<Rightarrow> pyval \<Rightarrow> pyval \<Rightarrow> pyval \<Rightarrow> outcome" where
  "LineItemClassic_init depth description weight price =
     and_then (and_then
       (py_setattr depth LineItemClassic Map.empty ''description'' description)
       (\<lambda>self. py_setattr depth LineItemClassic self ''weight'' weight))
       (\<lambda>self. py_setattr depth LineItemClassic self ''price'' price)"

subsection \<open>\<^verbatim>\<open>property_factory.py\<close>\<close>

definition LineItem_pf :: namespace where
  "LineItem_pf =
     [(''weight'', quantity ''weight''),
      (''price'', quantity ''price''),
      (''__init__'', VFunction ''__init__''),
      (''subtotal'', VFunction ''subtotal'')]"

definition LineItem_pf_init :: "nat \<Rightarrow> pyval \<Rightarrow> pyval \<Rightarrow> pyval \<Rightarrow> outcome" where
  "LineItem_pf_init depth description weight price =
     and_then (and_then
       (py_setattr depth LineItem_pf Map.empty ''description'' description)
       (\<lambda>self. py_setattr depth LineItem_pf self ''weight'' weight))
       (\<lambda>self. py_setattr depth LineItem_pf self ''price'' price)"

text \<open>The body of \<^verbatim>\<open>LineItemAuto\<close> calls \<^verbatim>\<open>quantity_auto()\<close> twice; the module is loaded
  with \<^verbatim>\<open>quantity_auto.counter\<close> undefined.\<close>

definition LineItemAuto_pf_body :: "nat option \<Rightarrow> namespace \<times> nat option" where
  "LineItemAuto_pf_body counter =
     (let (weight, counter1) = quantity_auto counter;
          (price, counter2) = quantity_auto counter1
      in ([(''weight'', weight),
           (''price'', price),
           (''__init__'', VFunction ''__init__''),
           (''subtotal'', VFunction ''subtotal'')], counter2))"

definition LineItemAuto_pf :: namespace where
  "LineItemAuto_pf = fst (LineItemAuto_pf_body None)"

definition LineItemAuto_pf_init :: "nat \<Rightarrow> pyval \<Rightarrow> pyval \<Rightarrow> pyval \<Rightarrow> outcome" where
  "LineItemAuto_pf_init depth description weight price =
     and_then (and_then
       (py_setattr depth LineItemAuto_pf Map.empty ''description'' description)
       (\<lambda>self. py_setattr depth LineItemAuto_pf self ''weight'' weight))
       (\<lambda>self. py_setattr depth LineItemAuto_pf self ''price'' price)"

subsection \<open>\<^verbatim>\<open>descriptor_bulkfood.py\<close>\<close>

definition LineItem_db :: namespace where
  "LineItem_db =
     [(''weight'', VDescr (Quantity_db_init ''weight'')),
      (''price'', VDescr (Quantity_db_init ''price'')),
      (''__init__'', VFunction ''__init__''),
      (''subtotal'', VFunction ''subtotal'')]"

definition LineItem_db_init :: "nat \<Rightarrow> pyval \<Rightarrow> pyval \<Rightarrow> pyval \<Rightarrow> outcome" where
  "LineItem_db_init depth description weight price =
     and_then (and_then
       (py_setattr depth LineItem_db Map.empty ''description'' description)
       (\<lambda>self. py_setattr depth LineItem_db self ''weight'' weight))
       (\<lambda>self. py_setattr depth LineItem_db self ''price'' price)"

text \<open>The class statement of \<^verbatim>\<open>QuantityAuto\<close> sets its \<^verbatim>\<open>__counter\<close> to \<open>0\<close>; the body of
  \<^verbatim>\<open>LineItemAuto\<close> then builds two instances.\<close>

definition db_counters :: counters where
  "db_counters = [QuantityAuto \<mapsto> 0]"

definition LineItemAuto_db_body :: "counters \<Rightarrow> error + (namespace \<times> counters)" where
  "LineItemAuto_db_body st =
     bind_sum (QuantityAuto_init st QuantityAuto) (\<lambda>(weight, st1).
     bind_sum (QuantityAuto_init st1 QuantityAuto) (\<lambda>(price, st2).
     Inr ([(''weight'', VDescr weight),
           (''price'', VDescr price),
           (''__init__'', VFunction ''__init__''),
           (''subtotal'', VFunction ''subtotal'')], st2)))"

definition LineItemAuto_db :: namespace where
  "LineItemAuto_db = (case LineItemAuto_db_body db_counters of Inr (ns, st) \<Rightarrow> ns | Inl e \<Rightarrow> [])"

definition LineItemAuto_db_init :: "nat \<Rightarrow> pyval \<Rightarrow> pyval \<Rightarrow> pyval \<Rightarrow> outcome" where
  "LineItemAuto_db_init depth description weight price =
     and_then (and_then
       (py_setattr depth LineItemAuto_db Map.empty ''description'' description)
       (\<lambda>self. py_setattr depth LineItemAuto_db self ''price'' price))
       (\<lambda>self. py_setattr depth LineItemAuto_db self ''weight'' weight)"

subsection \<open>\<^verbatim>\<open>descriptor_bulkfood2.py\<close>\<close>

text \<open>The statement of the loop shared by \<^verbatim>\<open>entity\<close>, \<^verbatim>\<open>EntityMeta.__init__\<close> and
  \<^verbatim>\<open>EntityMeta2.__init__\<close>: a \<^verbatim>\<open>Validated\<close> instance gets the storage name
  \<^verbatim>\<open>'_{}#{}'.format(type_name, key)\<close>.\<close>

definition set_storage_name :: "string \<Rightarrow> descriptor \<Rightarrow> descriptor" where
  "set_storage_name key attr =
     (let type_name = cls_name (dclass attr)
      in attr\<lparr>storage_name := ''_'' @ type_name @ ''#'' @ key\<rparr>)"

text \<open>The class decorator \<^verbatim>\<open>entity\<close>: the loop over \<^verbatim>\<open>cls.__dict__.items()\<close>, the body of
  the class. The assignment to \<^verbatim>\<open>attr.storage_name\<close> changes the object in the store; the
  class is returned as it was.\<close>

fun entity :: "body \<Rightarrow> heap \<Rightarrow> heap" where
  "entity [] h = h"
| "entity ((key, attr) # items) h =
     (case obj h attr of
        VDescr d \<Rightarrow>
          if isinstance_Validated (dclass d)
          then entity items (h[attr := VDescr (set_storage_name key d)])
          else entity items h
      | _ \<Rightarrow> entity items h)"

text \<open>The class statement of \<^verbatim>\<open>AutoStorage\<close> sets its \<^verbatim>\<open>__counter\<close> to \<open>0\<close>.\<close>

definition db2_counters :: counters where
  "db2_counters = [AutoStorage \<mapsto> 0]"

text \<open>A call \<^verbatim>\<open>cls()\<close> in a class body: the new descriptor is an object of the store.\<close>

definition new_object :: "counters \<Rightarrow> heap \<Rightarrow> dclass \<Rightarrow> error + (addr \<times> counters \<times> heap)" where
  "new_object st h cls =
     bind_sum (new_descriptor st cls) (\<lambda>(d, st').
     case alloc h (VDescr d) of (a, h') \<Rightarrow> Inr (a, st', h'))"

text \<open>The body of \<^verbatim>\<open>LineItem\<close>, the same statements here and in
  \<^verbatim>\<open>metaclass_bulkfood.py\<close>.\<close>

definition LineItem_body :: "counters \<Rightarrow> heap \<Rightarrow> error + (body \<times> counters \<times> heap)" where
  "LineItem_body st h =
     bind_sum (new_object st h NonBlank) (\<lambda>(description, st1, h1).
     bind_sum (new_object st1 h1 Quantity) (\<lambda>(weight, st2, h2).
     bind_sum (new_object st2 h2 Quantity) (\<lambda>(price, st3, h3).
     case alloc h3 (VFunction ''__init__'') of (init, h4) \<Rightarrow>
     case alloc h4 (VFunction ''subtotal'') of (sub, h5) \<Rightarrow>
     Inr ([(''description'', description),
           (''weight'', weight),
           (''price'', price),
           (''__init__'', init),
           (''subtotal'', sub)], st3, h5))))"

text \<open>The module once loaded: the body of its \<^verbatim>\<open>LineItem\<close>, the counters, and the store
  after the decorator has run.\<close>

definition db2_module :: "body \<times> counters \<times> heap" where
  "db2_module =
     (case LineItem_body db2_counters [] of
        Inr (b, st, h) \<Rightarrow> (b, st, entity b h)
      | Inl e \<Rightarrow> ([], db2_counters, []))"

definition LineItem_db2 :: namespace where
  "LineItem_db2 = (case db2_module of (b, st, h) \<Rightarrow> class_namespace h b)"

definition LineItem_db2_init :: "nat \<Rightarrow> pyval \<Rightarrow> pyval \<Rightarrow> pyval \<Rightarrow> outcome" where
  "LineItem_db2_init depth description weight price =
     and_then (and_then
       (py_setattr depth LineItem_db2 Map.empty ''description'' description)
       (\<lambda>self. py_setattr depth LineItem_db2 self ''price'' price))
       (\<lambda>self. py_setattr depth LineItem_db2 self ''weight'' weight)"

subsection \<open>\<^verbatim>\<open>metaclass_bulkfood.py\<close>\<close>

text \<open>\<^verbatim>\<open>EntityMeta.__init__\<close>: the loop over \<^verbatim>\<open>attr_dict.items()\<close>.\<close>

fun EntityMeta_init :: "body \<Rightarrow> heap \<Rightarrow> heap" where
  "EntityMeta_init [] h = h"
| "EntityMeta_init ((key, attr) # items) h =
     (case obj h attr of
        VDescr d \<Rightarrow>
          if isinstance_Validated (dclass d)
          then EntityMeta_init items (h[attr := VDescr (set_storage_name key d)])
          else EntityMeta_init items h
      | _ \<Rightarrow> EntityMeta_init items h)"

text \<open>A class built by \<^verbatim>\<open>EntityMeta2\<close>: its body, and its attribute \<^verbatim>\<open>_field_names\<close>.\<close>

record entity_class =
  cbody :: body
  cls_field_names :: "string list"

text \<open>\<^verbatim>\<open>EntityMeta2.__init__\<close>: the loop over the ordered \<^verbatim>\<open>attr_dict\<close>, started with
  \<^verbatim>\<open>cls._field_names = []\<close>; it changes the store and appends to the list.\<close>

fun EntityMeta2_loop :: "body \<Rightarrow> heap \<times> string list \<Rightarrow> heap \<times> string list" where
  "EntityMeta2_loop [] (h, names) = (h, names)"
| "EntityMeta2_loop ((key, attr) # items) (h, names) =
     (case obj h attr of
        VDescr d \<Rightarrow>
          if isinstance_Validated (dclass d)
          then EntityMeta2_loop items
                 (h[attr := VDescr (set_storage_name key d)], names @ [key])
          else EntityMeta2_loop items (h, names)
      | _ \<Rightarrow> EntityMeta2_loop items (h, names))"

definition EntityMeta2_init :: "body \<Rightarrow> heap \<Rightarrow> entity_class \<times> heap" where
  "EntityMeta2_init attr_dict h =
     (case EntityMeta2_loop attr_dict (h, []) of
        (h', names) \<Rightarrow> (\<lparr>cbody = attr_dict, cls_field_names = names\<rparr>, h'))"

text \<open>\<^verbatim>\<open>Entity2.field_names\<close>: the generator yields each name of \<^verbatim>\<open>cls._field_names\<close>.\<close>

fun yield_each :: "string list \<Rightarrow> string list" where
  "yield_each [] = []"
| "yield_each (name # names) = name # yield_each names"

definition field_names :: "entity_class \<Rightarrow> string list" where
  "field_names cls = yield_each (cls_field_names cls)"

text \<open>The module imports \<^verbatim>\<open>descriptor_bulkfood2\<close> first, so it starts with the counters
  and the store that module left. It then creates \<^verbatim>\<open>Entity2\<close>, whose body defines
  \<^verbatim>\<open>field_names\<close>, and \<^verbatim>\<open>LineItem\<close>. (\<^verbatim>\<open>Entity\<close> has an empty body.)\<close>

definition mb_counters :: counters where
  "mb_counters = (case db2_module of (b, st, h) \<Rightarrow> st)"

definition mb_module :: "entity_class \<times> entity_class \<times> counters \<times> heap" where
  "mb_module =
     (case db2_module of (b, st, h) \<Rightarrow>
      case alloc h (VFunction ''field_names'') of (fn, h1) \<Rightarrow>
      case EntityMeta2_init [(''field_names'', fn)] h1 of (entity2, h2) \<Rightarrow>
      case LineItem_body st h2 of
        Inr (b', st', h3) \<Rightarrow>
          (case EntityMeta2_init b' h3 of (line_item, h4) \<Rightarrow> (entity2, line_item, st', h4))
      | Inl e \<Rightarrow> (entity2, \<lparr>cbody = [], cls_field_names = []\<rparr>, st, h2))"

definition Entity2 :: entity_class where
  "Entity2 = (case mb_module of (entity2, line_item, st, h) \<Rightarrow> entity2)"

definition LineItem_mb_class :: entity_class where
  "LineItem_mb_class = (case mb_module of (entity2, line_item, st, h) \<Rightarrow> line_item)"

text \<open>Attribute lookup on an instance searches \<^verbatim>\<open>LineItem\<close> and then its base
  \<^verbatim>\<open>Entity2\<close>.\<close>

definition LineItem_mb :: namespace where
  "LineItem_mb =
     (case mb_module of (entity2, line_item, st, h) \<Rightarrow>
        class_namespace h (cbody line_item) @ class_namespace h (cbody entity2))"

definition LineItem_mb_init :: "nat \<Rightarrow> pyval \<Rightarrow> pyval \<Rightarrow> pyval \<Rightarrow> outcome" where
  "LineItem_mb_init depth description weight price =
     and_then (and_then
       (py_setattr depth LineItem_mb Map.empty ''description'' description)
       (\<lambda>self. py_setattr depth LineItem_mb self ''price'' price))
       (\<lambda>self. py_setattr depth LineItem_mb self ''weight'' weight)"

section \<open>Runs of the program\<close>

text \<open>The six classes in which both \<^verbatim>\<open>weight\<close> and \<^verbatim>\<open>price\<close> are managed, and the two of
  \<^verbatim>\<open>property_bulkfood.py\<close>, in which only \<^verbatim>\<open>weight\<close> is; each with its constructor.\<close>

definition managed_variants ::
  "(namespace \<times> (nat \<Rightarrow> pyval \<Rightarrow> pyval \<Rightarrow> pyval \<Rightarrow> outcome)) list" where
  "managed_variants =
     [(LineItem_pf, LineItem_pf_init),
      (LineItemAuto_pf, LineItemAuto_pf_init),
      (LineItem_db, LineItem_db_init),
      (LineItemAuto_db, LineItemAuto_db_init),
      (LineItem_db2, LineItem_db2_init),
      (LineItem_mb, LineItem_mb_init)]"

definition property_variants ::
  "(namespace \<times> (nat \<Rightarrow> pyval \<Rightarrow> pyval \<Rightarrow> pyval \<Rightarrow> outcome)) list" where
  "property_variants =
     [(LineItem_pb, LineItem_pb_init),
      (LineItemClassic, LineItemClassic_init)]"

text \<open>The validated attributes: \<^verbatim>\<open>weight\<close> in the two classes of
  \<^verbatim>\<open>property_bulkfood.py\<close>; \<^verbatim>\<open>weight\<close> and \<^verbatim>\<open>price\<close> in the classes built with the
  property factories, with the descriptors of \<^verbatim>\<open>descriptor_bulkfood.py\<close>, and with the
  \<^verbatim>\<open>Validated\<close> descriptors.\<close>

definition validated_attributes :: "(namespace \<times> string) list" where
  "validated_attributes =
     [(LineItem_pb, ''weight''), (LineItemClassic, ''weight''),
      (LineItem_pf, ''weight''), (LineItem_pf, ''price''),
      (LineItemAuto_pf, ''weight''), (LineItemAuto_pf, ''price''),
      (LineItem_db, ''weight''), (LineItem_db, ''price''),
      (LineItemAuto_db, ''weight''), (LineItemAuto_db, ''price''),
      (LineItem_db2, ''weight''), (LineItem_db2, ''price''),
      (LineItem_mb, ''weight''), (LineItem_mb, ''price'')]"

text \<open>The classes whose \<^verbatim>\<open>weight\<close> and \<^verbatim>\<open>price\<close> are managed by a \<^verbatim>\<open>Quantity\<close>
  descriptor or by a property of the \<^verbatim>\<open>quantity\<close> factories, and those whose managed
  attributes are descriptors with a \<^verbatim>\<open>__get__\<close>.\<close>

definition quantity_classes :: "namespace list" where
  "quantity_classes =
     [LineItem_pf, LineItemAuto_pf, LineItem_db, LineItemAuto_db, LineItem_db2, LineItem_mb]"

definition get_descriptor_classes :: "namespace list" where
  "get_descriptor_classes = [LineItemAuto_db, LineItem_db2, LineItem_mb]"

text \<open>A session on one instance: a list of assignments \<^verbatim>\<open>self.name = v\<close>, each one run
  whether or not the one before it raised.\<close>

fun assign_all :: "nat \<Rightarrow> namespace \<Rightarrow> inst_dict \<Rightarrow> (string \<times> pyval) list \<Rightarrow> inst_dict" where
  "assign_all depth cls self [] = self"
| "assign_all depth cls self ((name, v) # rest) =
     assign_all depth cls (fst (py_setattr depth cls self name v)) rest"

text \<open>A sequence of constructor calls \<^verbatim>\<open>cls()\<close>, one per class of the list, from a state
  of the counters. A call that raises leaves the counters as they are. Each descriptor
  built is listed with the value of \<^verbatim>\<open>cls.__counter\<close> its constructor read.\<close>

fun constructions ::
  "(counters \<Rightarrow> dclass \<Rightarrow> error + (descriptor \<times> counters)) \<Rightarrow> counters \<Rightarrow> dclass list
     \<Rightarrow> (nat \<times> descriptor) list" where
  "constructions init st [] = []"
| "constructions init st (cls # rest) =
     (case (init st cls, get_counter st cls) of
        (Inr (d, st'), Some index) \<Rightarrow> (index, d) # constructions init st' rest
      | _ \<Rightarrow> constructions init st rest)"

text \<open>\<open>n\<close> calls of \<^verbatim>\<open>quantity_auto()\<close> in a row, and the \<^verbatim>\<open>storage_name\<close> captured by a
  property of the factories.\<close>

fun quantity_auto_calls :: "nat option \<Rightarrow> nat \<Rightarrow> pyval list" where
  "quantity_auto_calls counter 0 = []"
| "quantity_auto_calls counter (Suc n) =
     (case quantity_auto counter of (p, counter') \<Rightarrow> p # quantity_auto_calls counter' n)"

fun property_storage_name :: "pyval \<Rightarrow> string" where
  "property_storage_name (VProperty (qty_getter name) fset) = name"
| "property_storage_name (VProperty (qty_getter_auto name) fset) = name"
| "property_storage_name _ = []"

text \<open>An object that is an instance of \<^verbatim>\<open>Validated\<close>.\<close>

fun is_Validated :: "pyval \<Rightarrow> bool" where
  "is_Validated (VDescr d) = isinstance_Validated (dclass d)"
| "is_Validated _ = False"

section \<open>The modules and their imports\<close>

text \<open>The 32 source files by module name; the modules each one names in the \<^verbatim>\<open>import\<close>
  and \<^verbatim>\<open>from ... import\<close> statements it runs when loaded or called; and the modules the
  examples of its docstrings import.\<close>

definition source_files :: "string list" where
  "source_files =
     [''structure_frenchdeck'', ''structure_mapping'', ''unicode_normeq'',
      ''decorator_clock'', ''decorator_closure'', ''decorator_parameter'',
      ''decorator_registration'', ''decorator_singledispatch'', ''function'',
      ''abc_tombola'', ''class_Vector2d'', ''inheritance_mro'', ''inheritance_subclassing'',
      ''object_reference_mutability'', ''operator_overloading'',
      ''contextmanager_mirror'', ''generator'', ''iterator_sentence'',
      ''attribute_osconfeed'', ''attribute_schedule'', ''attribute_schedule2'',
      ''descriptor_bulkfood'', ''descriptor_bulkfood2'', ''descriptor_kinds'',
      ''metaclass_bulkfood'', ''metaclass_evalsupport'', ''metaclass_evaltime'',
      ''metaclass_evaltime2'', ''metaclass_factory'', ''property_attributes'',
      ''property_bulkfood'', ''property_factory'']"

definition import_table :: "(string \<times> string list) list" where
  "import_table =
     [(''structure_frenchdeck'', [''collections'']),
      (''structure_mapping'', [''collections'', ''sys'', ''re'']),
      (''unicode_normeq'', [''unicodedata'', ''re'']),
      (''decorator_clock'', [''time'', ''functools'']),
      (''decorator_parameter'', [''time'']),
      (''decorator_singledispatch'', [''functools'', ''collections'', ''html'', ''numbers'']),
      (''abc_tombola'', [''abc'', ''random'']),
      (''class_Vector2d'', [''array'', ''math'']),
      (''inheritance_subclassing'', [''collections'']),
      (''operator_overloading'', [''itertools'', ''numbers'', ''abc_tombola'', ''class_Vector'']),
      (''contextmanager_mirror'', [''contextlib'', ''sys'']),
      (''generator'', [''itertools'']),
      (''iterator_sentence'', [''re'', ''reprlib'', ''random'']),
      (''attribute_osconfeed'',
         [''keyword'', ''urllib.request'', ''warnings'', ''os'', ''json'', ''collections'']),
      (''attribute_schedule'', [''warnings'', ''attribute_osconfeed'']),
      (''attribute_schedule2'', [''warnings'', ''inspect'', ''attribute_osconfeed'']),
      (''descriptor_bulkfood2'', [''abc'']),
      (''metaclass_bulkfood'', [''collections'', ''descriptor_bulkfood2'']),
      (''metaclass_evaltime'', [''metaclass_evalsupport'']),
      (''metaclass_evaltime2'', [''metaclass_evalsupport''])]"

definition doctest_import_table :: "(string \<times> string list) list" where
  "doctest_import_table =
     [(''structure_frenchdeck'', [''random'']),
      (''function'', [''functools'', ''operator'', ''collections'', ''unicodedata'', ''inspect'']),
      (''decorator_registration'', [''decorator_registration'']),
      (''inheritance_mro'', [''structure_frenchdeck'', ''numbers'', ''io'']),
      (''object_reference_mutability'', [''copy'', ''weakref'']),
      (''operator_overloading'', [''class_Vector2d'', ''fractions'']),
      (''generator'', [''itertools'', ''operator'', ''fractions'', ''decimal'']),
      (''attribute_schedule'', [''shelve'']),
      (''attribute_schedule2'', [''shelve'']),
      (''metaclass_evaltime'', [''evaltime'']),
      (''metaclass_evaltime2'',
         [''descriptor_bulkfood2'', ''collections'', ''abc'', ''metaclass_evaltime2''])]"

definition imports_of :: "string \<Rightarrow> string list" where
  "imports_of f =
     (case map_of import_table f of Some ms \<Rightarrow> ms | None \<Rightarrow> [])
     @ (case map_of doctest_import_table f of Some ms \<Rightarrow> ms | None \<Rightarrow> [])"

text \<open>The other source files a file imports, and a file that imports none.\<close>

definition repo_imports :: "string \<Rightarrow> string list" where
  "repo_imports f = filter (\<lambda>m. m \<in> set source_files \<and> m \<noteq> f) (imports_of f)"

definition self_contained :: "string \<Rightarrow> bool" where
  "self_contained f = (repo_imports f = [])"

section \<open>Basic facts\<close>

subsection \<open>The classes as the modules leave them\<close>

lemma str_nat_small [simp]:
  "str_nat 0 = ''0''" "str_nat 1 = ''1''" "str_nat 2 = ''2''" "str_nat 3 = ''3''"
  "str_nat (Suc 0) = ''1''"
  by simp_all

declare str_nat.simps [simp del]

lemma LineItemAuto_pf_eq:
  "LineItemAuto_pf =
     [(''weight'', VProperty (qty_getter_auto ''_quantity_auto:0'') (qty_setter_auto ''_quantity_auto:0'')),
      (''price'', VProperty (qty_getter_auto ''_quantity_auto:1'') (qty_setter_auto ''_quantity_auto:1'')),
      (''__init__'', VFunction ''__init__''),
      (''subtotal'', VFunction ''subtotal'')]"
  by code_simp

lemma LineItemAuto_db_eq:
  "LineItemAuto_db =
     [(''weight'', VDescr \<lparr>dclass = QuantityAuto, storage_name = ''_QuantityAuto#0''\<rparr>),
      (''price'', VDescr \<lparr>dclass = QuantityAuto, storage_name = ''_QuantityAuto#1''\<rparr>),
      (''__init__'', VFunction ''__init__''),
      (''subtotal'', VFunction ''subtotal'')]"
  by code_simp

lemma LineItem_db2_eq:
  "LineItem_db2 =
     [(''description'', VDescr \<lparr>dclass = NonBlank, storage_name = ''_NonBlank#description''\<rparr>),
      (''weight'', VDescr \<lparr>dclass = Quantity, storage_name = ''_Quantity#weight''\<rparr>),
      (''price'', VDescr \<lparr>dclass = Quantity, storage_name = ''_Quantity#price''\<rparr>),
      (''__init__'', VFunction ''__init__''),
      (''subtotal'', VFunction ''subtotal'')]"
  by code_simp

lemma LineItem_mb_class_eq:
  "LineItem_mb_class =
     \<lparr>cbody = [(''description'', 6), (''weight'', 7), (''price'', 8), (''__init__'', 9),
               (''subtotal'', 10)],
      cls_field_names = [''description'', ''weight'', ''price'']\<rparr>"
  by code_simp

lemma LineItem_mb_eq:
  "LineItem_mb =
     [(''description'', VDescr \<lparr>dclass = NonBlank, storage_name = ''_NonBlank#description''\<rparr>),
      (''weight'', VDescr \<lparr>dclass = Quantity, storage_name = ''_Quantity#weight''\<rparr>),
      (''price'', VDescr \<lparr>dclass = Quantity, storage_name = ''_Quantity#price''\<rparr>),
      (''__init__'', VFunction ''__init__''),
      (''subtotal'', VFunction ''subtotal''),
      (''field_names'', VFunction ''field_names'')]"
  by code_simp

subsection \<open>A failed assignment changes nothing\<close>

lemma descr_set_unchanged:
  assumes "\<And>inst name v inst' e. setattr inst name v = (inst', Some e) \<Longrightarrow> inst' = inst"
      and "descr_set setattr d inst v = (inst', Some e)"
  shows "inst' = inst"
  using assms(2)
  by (auto simp: descr_set_def Quantity_db_set_def QuantityAuto_set_def AutoStorage_set_def
      Validated_set_def dest: assms(1) split: dclass.splits sum.splits bool.splits)

lemma call_setter_unchanged:
  assumes "\<And>inst name v inst' e. setattr inst name v = (inst', Some e) \<Longrightarrow> inst' = inst"
      and "call_setter setattr f inst v = (inst', Some e)"
  shows "inst' = inst"
  using assms(2)
  by (cases f) (auto dest: assms(1) split: sum.splits bool.splits)

lemma py_setattr_unchanged:
  "py_setattr depth ns inst name v = (inst', Some e) \<Longrightarrow> inst' = inst"
proof (induction depth arbitrary: inst name v inst' e)
  case 0
  then show ?case by simp
next
  case (Suc n)
  from Suc.prems show ?case
    by (auto split: option.splits pyval.splits
        dest: descr_set_unchanged [rotated] call_setter_unchanged [rotated] Suc.IH)
qed

section \<open>Assignment is atomic\<close>

text \<open>
  Claim C2. Assignment to a managed attribute is atomic. For an instance of a class with
  any namespace \<open>cls\<close> (each \<^verbatim>\<open>LineItem\<close> class of the source is one), if the attribute
  \<open>name\<close> reads as \<open>w\<close> and the assignment \<^verbatim>\<open>inst.name = v\<close> raises \<^verbatim>\<open>ValueError\<close>, the
  instance is left exactly as it was, and the attribute still reads as \<open>w\<close>.
\<close>

theorem assignment_atomic:
  assumes "py_getattr depth cls inst name = Inr w"
      and "py_setattr depth cls inst name v = (inst', Some (ValueError msg))"
  shows "inst' = inst \<and> py_getattr depth cls inst' name = Inr w"
  using assms py_setattr_unchanged by blast

theorem assignment_atomic_witness:
  "py_getattr 1000 LineItem_pb [''_LineItem__weight'' \<mapsto> VInt 10] ''weight'' = Inr (VInt 10)
   \<and> snd (py_setattr 1000 LineItem_pb [''_LineItem__weight'' \<mapsto> VInt 10] ''weight'' (VInt (- 20)))
       = Some (ValueError ''value must be > 0'')
   \<and> fst (py_setattr 1000 LineItem_pb [''_LineItem__weight'' \<mapsto> VInt 10] ''weight'' (VInt (- 20)))
       = [''_LineItem__weight'' \<mapsto> VInt 10]
   \<and> py_getattr 1000 LineItem_pb
         (fst (py_setattr 1000 LineItem_pb [''_LineItem__weight'' \<mapsto> VInt 10] ''weight''
                 (VInt (- 20)))) ''weight'' = Inr (VInt 10)"
proof -
  have r: "py_getattr 1000 LineItem_pb [''_LineItem__weight'' \<mapsto> VInt 10] ''weight''
             = Inr (VInt 10)"
    by (simp add: LineItem_pb_def eval_nat_numeral)
  have s: "py_setattr 1000 LineItem_pb [''_LineItem__weight'' \<mapsto> VInt 10] ''weight'' (VInt (- 20))
             = ([''_LineItem__weight'' \<mapsto> VInt 10], Some (ValueError ''value must be > 0''))"
    by (simp add: LineItem_pb_def eval_nat_numeral)
  from assignment_atomic [OF r s] r s show ?thesis by simp
qed

section \<open>Class creation: the decorator and the metaclasses\<close>

lemma obj_update:
  "obj (h[a := v]) a' = (if a' = a \<and> a < length h then v else obj h a')"
  by (simp add: obj_def)

lemma is_Validated_update:
  assumes "obj h a = VDescr d"
  shows "is_Validated (obj (h[a := VDescr (set_storage_name key d)]) a') = is_Validated (obj h a')"
proof (cases "a' = a \<and> a < length h")
  case True
  then have "a' = a" and "a < length h" by simp_all
  with assms show ?thesis by (simp add: obj_update set_storage_name_def)
next
  case False
  then show ?thesis by (auto simp: obj_update)
qed

lemma EntityMeta_init_entity: "EntityMeta_init b h = entity b h"
  by (induction b arbitrary: h) (auto split: pyval.splits)

lemma filter_Validated_update:
  assumes "obj h a = VDescr d"
  shows "filter (\<lambda>(k, x). is_Validated (obj (h[a := VDescr (set_storage_name key d)]) x)) items
           = filter (\<lambda>(k, x). is_Validated (obj h x)) items"
  using is_Validated_update [OF assms] by (intro filter_cong) auto

lemma EntityMeta2_loop_eq:
  "EntityMeta2_loop b (h, names) =
     (entity b h, names @ map fst (filter (\<lambda>(key, attr). is_Validated (obj h attr)) b))"
proof (induction b arbitrary: h names)
  case Nil
  then show ?case by simp
next
  case (Cons x items)
  obtain key attr where x: "x = (key, attr)" by (cases x)
  show ?case
  proof (cases "obj h attr")
    case (VDescr d)
    then show ?thesis
      by (simp add: x Cons.IH filter_Validated_update [OF VDescr])
  qed (simp_all add: x Cons.IH)
qed

lemma EntityMeta2_init_eq:
  "EntityMeta2_init attr_dict h =
     (\<lparr>cbody = attr_dict,
       cls_field_names = map fst (filter (\<lambda>(key, attr). is_Validated (obj h attr)) attr_dict)\<rparr>,
      entity attr_dict h)"
  by (simp add: EntityMeta2_init_def EntityMeta2_loop_eq)

lemma yield_each_id: "yield_each names = names"
  by (induction names) auto

lemma entity_length: "length (entity b h) = length h"
  by (induction b arbitrary: h) (auto split: pyval.splits)

lemma entity_append: "entity (xs @ ys) h = entity ys (entity xs h)"
  by (induction xs arbitrary: h) (auto split: pyval.splits)

lemma entity_unbound: "a \<notin> snd ` set b \<Longrightarrow> obj (entity b h) a = obj h a"
  by (induction b arbitrary: h) (auto simp: obj_update split: pyval.splits)

lemma entity_dclass:
  "obj h a = VDescr d \<Longrightarrow> \<exists>d'. obj (entity b h) a = VDescr d' \<and> dclass d' = dclass d"
proof (induction b arbitrary: h d)
  case Nil
  then show ?case by simp
next
  case (Cons x items)
  obtain key attr where x: "x = (key, attr)" by (cases x)
  show ?case
  proof (cases "obj h attr")
    case (VDescr d0)
    show ?thesis
    proof (cases "isinstance_Validated (dclass d0)")
      case True
      have "\<exists>d1. obj (h[attr := VDescr (set_storage_name key d0)]) a = VDescr d1
              \<and> dclass d1 = dclass d"
        using Cons.prems VDescr by (auto simp: obj_update set_storage_name_def)
      then obtain d1 where d1: "obj (h[attr := VDescr (set_storage_name key d0)]) a = VDescr d1"
        "dclass d1 = dclass d" by blast
      from Cons.IH [OF d1(1)] d1(2) VDescr True show ?thesis by (simp add: x)
    next
      case False
      with VDescr Cons.IH [OF Cons.prems] show ?thesis by (simp add: x)
    qed
  qed (use Cons.IH [OF Cons.prems] in \<open>simp_all add: x\<close>)
qed

lemma entity_last_binding:
  assumes "a \<notin> snd ` set post" and "obj h a = VDescr d" and "isinstance_Validated (dclass d)"
  shows "obj (entity (pre @ (key, a) # post) h) a
           = VDescr (d\<lparr>storage_name := ''_'' @ cls_name (dclass d) @ ''#'' @ key\<rparr>)"
proof -
  from entity_dclass [OF assms(2), of pre] obtain d' where
    d': "obj (entity pre h) a = VDescr d'" "dclass d' = dclass d" by blast
  from d'(1) have len: "a < length (entity pre h)" by (auto simp: obj_def split: if_splits)
  have "entity (pre @ (key, a) # post) h
          = entity post ((entity pre h)[a := VDescr (set_storage_name key d')])"
    using d' assms(3) by (simp add: entity_append)
  then have "obj (entity (pre @ (key, a) # post) h) a = VDescr (set_storage_name key d')"
    using assms(1) len by (simp add: entity_unbound obj_update)
  with d'(2) show ?thesis by (simp add: set_storage_name_def)
qed

text \<open>
  Claim C7, as the code has it. The loop of \<^verbatim>\<open>entity\<close>, \<^verbatim>\<open>EntityMeta.__init__\<close> and
  \<^verbatim>\<open>EntityMeta2.__init__\<close> assigns to \<^verbatim>\<open>storage_name\<close> on the descriptor object, so a
  descriptor object bound to two names of the class body keeps the name made from the later
  one. For the body \<^verbatim>\<open>weight = price = Quantity()\<close> the descriptor read under \<^verbatim>\<open>weight\<close> has
  the storage name \<^verbatim>\<open>'_Quantity#price'\<close>, not \<^verbatim>\<open>'_Quantity#weight'\<close>, after the decorator and
  after either metaclass.
\<close>

theorem shared_descriptor_counterexample:
  "map_of (class_namespace
       (entity [(''weight'', 0), (''price'', 0)]
          [VDescr \<lparr>dclass = Quantity, storage_name = ''_Quantity#0''\<rparr>])
       [(''weight'', 0), (''price'', 0)]) ''weight''
     = Some (VDescr \<lparr>dclass = Quantity, storage_name = ''_Quantity#price''\<rparr>)
   \<and> map_of (class_namespace
       (EntityMeta_init [(''weight'', 0), (''price'', 0)]
          [VDescr \<lparr>dclass = Quantity, storage_name = ''_Quantity#0''\<rparr>])
       [(''weight'', 0), (''price'', 0)]) ''weight''
     = Some (VDescr \<lparr>dclass = Quantity, storage_name = ''_Quantity#price''\<rparr>)
   \<and> map_of (class_namespace
       (snd (EntityMeta2_init [(''weight'', 0), (''price'', 0)]
          [VDescr \<lparr>dclass = Quantity, storage_name = ''_Quantity#0''\<rparr>]))
       [(''weight'', 0), (''price'', 0)]) ''weight''
     = Some (VDescr \<lparr>dclass = Quantity, storage_name = ''_Quantity#price''\<rparr>)
   \<and> ''_Quantity#price'' \<noteq> ''_Quantity#weight''"
  by code_simp

text \<open>
  Claim C7, amended. Let the class body \<open>b\<close> bind the name \<open>key\<close> to the object \<open>a\<close>, a
  \<^verbatim>\<open>Validated\<close> descriptor \<open>d\<close> in the store \<open>h\<close>, and let no later name of the body be bound
  to \<open>a\<close>. After \<^verbatim>\<open>entity\<close>, after \<^verbatim>\<open>EntityMeta.__init__\<close> and after \<^verbatim>\<open>EntityMeta2.__init__\<close>
  the object \<open>a\<close> is \<open>d\<close> with \<^verbatim>\<open>storage_name\<close> overwritten by \<^verbatim>\<open>'_T#key'\<close>, where \<open>T\<close> is the
  name of the descriptor's class; and every name of the body bound to \<open>a\<close> reads this
  descriptor in the class. In particular a descriptor object bound to one name only, as
  every descriptor of the repository's classes is, gets the name made from that name.
\<close>

theorem storage_name_customized:
  assumes "b = pre @ (key, a) # post" and "a \<notin> snd ` set post"
      and "obj h a = VDescr d" and "isinstance_Validated (dclass d)"
  shows "obj (entity b h) a
           = VDescr (d\<lparr>storage_name := ''_'' @ cls_name (dclass d) @ ''#'' @ key\<rparr>)
         \<and> obj (EntityMeta_init b h) a
           = VDescr (d\<lparr>storage_name := ''_'' @ cls_name (dclass d) @ ''#'' @ key\<rparr>)
         \<and> obj (snd (EntityMeta2_init b h)) a
           = VDescr (d\<lparr>storage_name := ''_'' @ cls_name (dclass d) @ ''#'' @ key\<rparr>)
         \<and> (distinct (map fst b) \<longrightarrow>
              (\<forall>k. (k, a) \<in> set b \<longrightarrow>
                 map_of (class_namespace (entity b h) b) k
                   = Some (VDescr (d\<lparr>storage_name := ''_'' @ cls_name (dclass d) @ ''#'' @ key\<rparr>))))"
proof -
  have e: "obj (entity b h) a
           = VDescr (d\<lparr>storage_name := ''_'' @ cls_name (dclass d) @ ''#'' @ key\<rparr>)"
    unfolding assms(1) using assms(2-4) by (rule entity_last_binding)
  have n: "map_of (class_namespace (entity b h) b) k = Some (obj (entity b h) a)"
    if "distinct (map fst b)" "(k, a) \<in> set b" for k
  proof -
    have "map_of (class_namespace (entity b h) b) k
            = map_option (obj (entity b h)) (map_of b k)"
      by (simp add: class_namespace_def map_of_map)
    with that show ?thesis by simp
  qed
  from e n show ?thesis
    by (simp add: EntityMeta_init_entity EntityMeta2_init_eq)
qed

theorem storage_name_customized_witness:
  "obj (entity [(''description'', 0), (''weight'', 1), (''subtotal'', 2)]
          [VDescr \<lparr>dclass = NonBlank, storage_name = ''_NonBlank#0''\<rparr>,
           VDescr \<lparr>dclass = Quantity, storage_name = ''_Quantity#0''\<rparr>,
           VFunction ''subtotal'']) 1
     = VDescr \<lparr>dclass = Quantity, storage_name = ''_Quantity#weight''\<rparr>
   \<and> obj (EntityMeta_init [(''description'', 0), (''weight'', 1), (''subtotal'', 2)]
          [VDescr \<lparr>dclass = NonBlank, storage_name = ''_NonBlank#0''\<rparr>,
           VDescr \<lparr>dclass = Quantity, storage_name = ''_Quantity#0''\<rparr>,
           VFunction ''subtotal'']) 1
     = VDescr \<lparr>dclass = Quantity, storage_name = ''_Quantity#weight''\<rparr>
   \<and> obj (snd (EntityMeta2_init [(''description'', 0), (''weight'', 1), (''subtotal'', 2)]
          [VDescr \<lparr>dclass = NonBlank, storage_name = ''_NonBlank#0''\<rparr>,
           VDescr \<lparr>dclass = Quantity, storage_name = ''_Quantity#0''\<rparr>,
           VFunction ''subtotal''])) 1
     = VDescr \<lparr>dclass = Quantity, storage_name = ''_Quantity#weight''\<rparr>
   \<and> map_of (class_namespace
         (entity [(''description'', 0), (''weight'', 1), (''subtotal'', 2)]
            [VDescr \<lparr>dclass = NonBlank, storage_name = ''_NonBlank#0''\<rparr>,
             VDescr \<lparr>dclass = Quantity, storage_name = ''_Quantity#0''\<rparr>,
             VFunction ''subtotal''])
         [(''description'', 0), (''weight'', 1), (''subtotal'', 2)]) ''weight''
     = Some (VDescr \<lparr>dclass = Quantity, storage_name = ''_Quantity#weight''\<rparr>)"
proof -
  note t = storage_name_customized
    [where b = "[(''description'', 0), (''weight'', 1), (''subtotal'', 2)]"
       and pre = "[(''description'', 0)]" and key = "''weight''" and a = 1
       and post = "[(''subtotal'', 2)]"
       and h = "[VDescr \<lparr>dclass = NonBlank, storage_name = ''_NonBlank#0''\<rparr>,
                 VDescr \<lparr>dclass = Quantity, storage_name = ''_Quantity#0''\<rparr>,
                 VFunction ''subtotal'']"
       and d = "\<lparr>dclass = Quantity, storage_name = ''_Quantity#0''\<rparr>"]
  have p: "[(''description'', 0), (''weight'', 1::nat), (''subtotal'', 2)]
             = [(''description'', 0)] @ (''weight'', 1) # [(''subtotal'', 2)]"
    "(1::nat) \<notin> snd ` set [(''subtotal'', 2)]"
    "obj [VDescr \<lparr>dclass = NonBlank, storage_name = ''_NonBlank#0''\<rparr>,
          VDescr \<lparr>dclass = Quantity, storage_name = ''_Quantity#0''\<rparr>,
          VFunction ''subtotal''] 1
       = VDescr \<lparr>dclass = Quantity, storage_name = ''_Quantity#0''\<rparr>"
    "isinstance_Validated (dclass \<lparr>dclass = Quantity, storage_name = ''_Quantity#0''\<rparr>)"
    by (simp_all add: obj_def isinstance_Validated_def)
  have q: "distinct (map fst [(''description'', 0::nat), (''weight'', 1), (''subtotal'', 2)])"
    "(''weight'', 1::nat) \<in> set [(''description'', 0), (''weight'', 1), (''subtotal'', 2)]"
    by simp_all
  from t [OF p] have
    "obj (entity [(''description'', 0), (''weight'', 1), (''subtotal'', 2)]
          [VDescr \<lparr>dclass = NonBlank, storage_name = ''_NonBlank#0''\<rparr>,
           VDescr \<lparr>dclass = Quantity, storage_name = ''_Quantity#0''\<rparr>,
           VFunction ''subtotal'']) 1
       = VDescr \<lparr>dclass = Quantity, storage_name = ''_Quantity#weight''\<rparr>"
    "obj (EntityMeta_init [(''description'', 0), (''weight'', 1), (''subtotal'', 2)]
          [VDescr \<lparr>dclass = NonBlank, storage_name = ''_NonBlank#0''\<rparr>,
           VDescr \<lparr>dclass = Quantity, storage_name = ''_Quantity#0''\<rparr>,
           VFunction ''subtotal'']) 1
       = VDescr \<lparr>dclass = Quantity, storage_name = ''_Quantity#weight''\<rparr>"
    "obj (snd (EntityMeta2_init [(''description'', 0), (''weight'', 1), (''subtotal'', 2)]
          [VDescr \<lparr>dclass = NonBlank, storage_name = ''_NonBlank#0''\<rparr>,
           VDescr \<lparr>dclass = Quantity, storage_name = ''_Quantity#0''\<rparr>,
           VFunction ''subtotal''])) 1
       = VDescr \<lparr>dclass = Quantity, storage_name = ''_Quantity#weight''\<rparr>"
    by simp_all
  moreover from t [OF p, THEN conjunct2, THEN conjunct2, THEN conjunct2, rule_format, OF q] have
    "map_of (class_namespace
         (entity [(''description'', 0), (''weight'', 1), (''subtotal'', 2)]
            [VDescr \<lparr>dclass = NonBlank, storage_name = ''_NonBlank#0''\<rparr>,
             VDescr \<lparr>dclass = Quantity, storage_name = ''_Quantity#0''\<rparr>,
             VFunction ''subtotal''])
         [(''description'', 0), (''weight'', 1), (''subtotal'', 2)]) ''weight''
       = Some (VDescr \<lparr>dclass = Quantity, storage_name = ''_Quantity#weight''\<rparr>)"
    by simp
  ultimately show ?thesis by blast
qed

text \<open>
  Claim C10. For a class built with \<^verbatim>\<open>EntityMeta2\<close> from the ordered namespace \<open>attr_dict\<close>
  of its body, \<^verbatim>\<open>field_names()\<close> yields exactly the names bound to \<^verbatim>\<open>Validated\<close>
  descriptors, in the order of the class body; for \<^verbatim>\<open>LineItem\<close> these are
  \<^verbatim>\<open>description\<close>, \<^verbatim>\<open>weight\<close>, \<^verbatim>\<open>price\<close>.
\<close>

theorem field_names_declaration_order:
  "field_names (fst (EntityMeta2_init attr_dict h))
     = map fst (filter (\<lambda>(key, attr). is_Validated (obj h attr)) attr_dict)
   \<and> field_names LineItem_mb_class = [''description'', ''weight'', ''price'']"
  by (simp add: field_names_def yield_each_id EntityMeta2_init_eq LineItem_mb_class_eq)

section \<open>Attribute access on the managed classes\<close>

text \<open>From here on \<^verbatim>\<open>getattr\<close> and \<^verbatim>\<open>setattr\<close> are unfolded only on request. For each
  managed attribute of each class, one lemma says where an assignment stores the value
  and one where a read finds it.\<close>

declare py_getattr.simps [simp del] py_setattr.simps [simp del]

lemmas class_eqs = LineItem_pb_def LineItemClassic_def LineItem_pf_def LineItemAuto_pf_eq
  LineItem_db_def LineItemAuto_db_eq LineItem_db2_eq LineItem_mb_eq

lemmas method_defs = descr_get_def descr_set_def Quantity_db_set_def Quantity_db_init_def
  QuantityAuto_get_def QuantityAuto_set_def AutoStorage_get_def AutoStorage_set_def
  Validated_set_def validate_def Quantity_validate_def NonBlank_validate_def quantity_def

lemma set_unmanaged:
  "map_of ns name = None \<Longrightarrow> py_setattr (Suc n) ns inst name v = (inst(name \<mapsto> v), None)"
  by (simp add: py_setattr.simps)

lemma get_unmanaged:
  "map_of ns name = None \<Longrightarrow>
   py_getattr (Suc n) ns inst name =
     (case inst name of Some v \<Rightarrow> Inr v | None \<Rightarrow> Inl (AttributeError name))"
  by (simp add: py_getattr.simps)

lemma set_weight_pb:
  "py_setattr (Suc (Suc n)) LineItem_pb inst ''weight'' v =
     (case py_gt0 v of
        Inl e \<Rightarrow> (inst, Some e)
      | Inr True \<Rightarrow> (inst(''_LineItem__weight'' \<mapsto> v), None)
      | Inr False \<Rightarrow> (inst, Some (ValueError ''value must be > 0'')))"
  by (simp add: class_eqs method_defs py_setattr.simps split: sum.splits bool.splits)

lemma get_weight_pb:
  "py_getattr (Suc (Suc n)) LineItem_pb inst ''weight'' =
     (case inst ''_LineItem__weight'' of Some v \<Rightarrow> Inr v | None \<Rightarrow> Inl (AttributeError ''_LineItem__weight''))"
  by (simp add: class_eqs method_defs py_getattr.simps split: option.splits)

lemma set_weight_classic:
  "py_setattr (Suc (Suc n)) LineItemClassic inst ''weight'' v =
     (case py_gt0 v of
        Inl e \<Rightarrow> (inst, Some e)
      | Inr True \<Rightarrow> (inst(''_LineItemClassic__weight'' \<mapsto> v), None)
      | Inr False \<Rightarrow> (inst, Some (ValueError ''value must be > 0'')))"
  by (simp add: class_eqs method_defs py_setattr.simps split: sum.splits bool.splits)

lemma get_weight_classic:
  "py_getattr (Suc (Suc n)) LineItemClassic inst ''weight'' =
     (case inst ''_LineItemClassic__weight'' of Some v \<Rightarrow> Inr v | None \<Rightarrow> Inl (AttributeError ''_LineItemClassic__weight''))"
  by (simp add: class_eqs method_defs py_getattr.simps split: option.splits)

lemma set_weight_pf:
  "py_setattr (Suc (Suc n)) LineItem_pf inst ''weight'' v =
     (case py_gt0 v of
        Inl e \<Rightarrow> (inst, Some e)
      | Inr True \<Rightarrow> (inst(''weight'' \<mapsto> v), None)
      | Inr False \<Rightarrow> (inst, Some (ValueError ''value must be > 0'')))"
  by (simp add: class_eqs method_defs py_setattr.simps split: sum.splits bool.splits)

lemma get_weight_pf:
  "py_getattr (Suc (Suc n)) LineItem_pf inst ''weight'' =
     (case inst ''weight'' of Some v \<Rightarrow> Inr v | None \<Rightarrow> Inl (KeyError ''weight''))"
  by (simp add: class_eqs method_defs py_getattr.simps split: option.splits)

lemma set_price_pf:
  "py_setattr (Suc (Suc n)) LineItem_pf inst ''price'' v =
     (case py_gt0 v of
        Inl e \<Rightarrow> (inst, Some e)
      | Inr True \<Rightarrow> (inst(''price'' \<mapsto> v), None)
      | Inr False \<Rightarrow> (inst, Some (ValueError ''value must be > 0'')))"
  by (simp add: class_eqs method_defs py_setattr.simps split: sum.splits bool.splits)

lemma get_price_pf:
  "py_getattr (Suc (Suc n)) LineItem_pf inst ''price'' =
     (case inst ''price'' of Some v \<Rightarrow> Inr v | None \<Rightarrow> Inl (KeyError ''price''))"
  by (simp add: class_eqs method_defs py_getattr.simps split: option.splits)

lemma set_weight_pf_auto:
  "py_setattr (Suc (Suc n)) LineItemAuto_pf inst ''weight'' v =
     (case py_gt0 v of
        Inl e \<Rightarrow> (inst, Some e)
      | Inr True \<Rightarrow> (inst(''_quantity_auto:0'' \<mapsto> v), None)
      | Inr False \<Rightarrow> (inst, Some (ValueError ''value must be > 0'')))"
  by (simp add: class_eqs method_defs py_setattr.simps split: sum.splits bool.splits)

lemma get_weight_pf_auto:
  "py_getattr (Suc (Suc n)) LineItemAuto_pf inst ''weight'' =
     (case inst ''_quantity_auto:0'' of Some v \<Rightarrow> Inr v | None \<Rightarrow> Inl (AttributeError ''_quantity_auto:0''))"
  by (simp add: class_eqs method_defs py_getattr.simps split: option.splits)

lemma set_price_pf_auto:
  "py_setattr (Suc (Suc n)) LineItemAuto_pf inst ''price'' v =
     (case py_gt0 v of
        Inl e \<Rightarrow> (inst, Some e)
      | Inr True \<Rightarrow> (inst(''_quantity_auto:1'' \<mapsto> v), None)
      | Inr False \<Rightarrow> (inst, Some (ValueError ''value must be > 0'')))"
  by (simp add: class_eqs method_defs py_setattr.simps split: sum.splits bool.splits)

lemma get_price_pf_auto:
  "py_getattr (Suc (Suc n)) LineItemAuto_pf inst ''price'' =
     (case inst ''_quantity_auto:1'' of Some v \<Rightarrow> Inr v | None \<Rightarrow> Inl (AttributeError ''_quantity_auto:1''))"
  by (simp add: class_eqs method_defs py_getattr.simps split: option.splits)

lemma set_weight_db:
  "py_setattr (Suc (Suc n)) LineItem_db inst ''weight'' v =
     (case py_gt0 v of
        Inl e \<Rightarrow> (inst, Some e)
      | Inr True \<Rightarrow> (inst(''weight'' \<mapsto> v), None)
      | Inr False \<Rightarrow> (inst, Some (ValueError ''value must be > 0'')))"
  by (simp add: class_eqs method_defs py_setattr.simps split: sum.splits bool.splits)

lemma get_weight_db:
  "py_getattr (Suc (Suc n)) LineItem_db inst ''weight'' =
     (case inst ''weight'' of Some v \<Rightarrow> Inr v | None \<Rightarrow> Inr (VDescr (Quantity_db_init ''weight'')))"
  by (simp add: class_eqs method_defs py_getattr.simps split: option.splits)

lemma set_price_db:
  "py_setattr (Suc (Suc n)) LineItem_db inst ''price'' v =
     (case py_gt0 v of
        Inl e \<Rightarrow> (inst, Some e)
      | Inr True \<Rightarrow> (inst(''price'' \<mapsto> v), None)
      | Inr False \<Rightarrow> (inst, Some (ValueError ''value must be > 0'')))"
  by (simp add: class_eqs method_defs py_setattr.simps split: sum.splits bool.splits)

lemma get_price_db:
  "py_getattr (Suc (Suc n)) LineItem_db inst ''price'' =
     (case inst ''price'' of Some v \<Rightarrow> Inr v | None \<Rightarrow> Inr (VDescr (Quantity_db_init ''price'')))"
  by (simp add: class_eqs method_defs py_getattr.simps split: option.splits)

lemma set_weight_db_auto:
  "py_setattr (Suc (Suc n)) LineItemAuto_db inst ''weight'' v =
     (case py_gt0 v of
        Inl e \<Rightarrow> (inst, Some e)
      | Inr True \<Rightarrow> (inst(''_QuantityAuto#0'' \<mapsto> v), None)
      | Inr False \<Rightarrow> (inst, Some (ValueError ''value must be > 0'')))"
  by (simp add: class_eqs method_defs py_setattr.simps split: sum.splits bool.splits)

lemma get_weight_db_auto:
  "py_getattr (Suc (Suc n)) LineItemAuto_db inst ''weight'' =
     (case inst ''_QuantityAuto#0'' of Some v \<Rightarrow> Inr v | None \<Rightarrow> Inl (AttributeError ''_QuantityAuto#0''))"
  by (simp add: class_eqs method_defs py_getattr.simps split: option.splits)

lemma set_price_db_auto:
  "py_setattr (Suc (Suc n)) LineItemAuto_db inst ''price'' v =
     (case py_gt0 v of
        Inl e \<Rightarrow> (inst, Some e)
      | Inr True \<Rightarrow> (inst(''_QuantityAuto#1'' \<mapsto> v), None)
      | Inr False \<Rightarrow> (inst, Some (ValueError ''value must be > 0'')))"
  by (simp add: class_eqs method_defs py_setattr.simps split: sum.splits bool.splits)

lemma get_price_db_auto:
  "py_getattr (Suc (Suc n)) LineItemAuto_db inst ''price'' =
     (case inst ''_QuantityAuto#1'' of Some v \<Rightarrow> Inr v | None \<Rightarrow> Inl (AttributeError ''_QuantityAuto#1''))"
  by (simp add: class_eqs method_defs py_getattr.simps split: option.splits)

lemma set_weight_db2:
  "py_setattr (Suc (Suc n)) LineItem_db2 inst ''weight'' v =
     (case py_le0 v of
        Inl e \<Rightarrow> (inst, Some e)
      | Inr True \<Rightarrow> (inst, Some (ValueError ''value must be > 0''))
      | Inr False \<Rightarrow> (inst(''_Quantity#weight'' \<mapsto> v), None))"
  by (simp add: class_eqs method_defs py_setattr.simps split: sum.splits bool.splits)

lemma get_weight_db2:
  "py_getattr (Suc (Suc n)) LineItem_db2 inst ''weight'' =
     (case inst ''_Quantity#weight'' of Some v \<Rightarrow> Inr v | None \<Rightarrow> Inl (AttributeError ''_Quantity#weight''))"
  by (simp add: class_eqs method_defs py_getattr.simps split: option.splits)

lemma set_price_db2:
  "py_setattr (Suc (Suc n)) LineItem_db2 inst ''price'' v =
     (case py_le0 v of
        Inl e \<Rightarrow> (inst, Some e)
      | Inr True \<Rightarrow> (inst, Some (ValueError ''value must be > 0''))
      | Inr False \<Rightarrow> (inst(''_Quantity#price'' \<mapsto> v), None))"
  by (simp add: class_eqs method_defs py_setattr.simps split: sum.splits bool.splits)

lemma get_price_db2:
  "py_getattr (Suc (Suc n)) LineItem_db2 inst ''price'' =
     (case inst ''_Quantity#price'' of Some v \<Rightarrow> Inr v | None \<Rightarrow> Inl (AttributeError ''_Quantity#price''))"
  by (simp add: class_eqs method_defs py_getattr.simps split: option.splits)

lemma set_weight_mb:
  "py_setattr (Suc (Suc n)) LineItem_mb inst ''weight'' v =
     (case py_le0 v of
        Inl e \<Rightarrow> (inst, Some e)
      | Inr True \<Rightarrow> (inst, Some (ValueError ''value must be > 0''))
      | Inr False \<Rightarrow> (inst(''_Quantity#weight'' \<mapsto> v), None))"
  by (simp add: class_eqs method_defs py_setattr.simps split: sum.splits bool.splits)

lemma get_weight_mb:
  "py_getattr (Suc (Suc n)) LineItem_mb inst ''weight'' =
     (case inst ''_Quantity#weight'' of Some v \<Rightarrow> Inr v | None \<Rightarrow> Inl (AttributeError ''_Quantity#weight''))"
  by (simp add: class_eqs method_defs py_getattr.simps split: option.splits)

lemma set_price_mb:
  "py_setattr (Suc (Suc n)) LineItem_mb inst ''price'' v =
     (case py_le0 v of
        Inl e \<Rightarrow> (inst, Some e)
      | Inr True \<Rightarrow> (inst, Some (ValueError ''value must be > 0''))
      | Inr False \<Rightarrow> (inst(''_Quantity#price'' \<mapsto> v), None))"
  by (simp add: class_eqs method_defs py_setattr.simps split: sum.splits bool.splits)

lemma get_price_mb:
  "py_getattr (Suc (Suc n)) LineItem_mb inst ''price'' =
     (case inst ''_Quantity#price'' of Some v \<Rightarrow> Inr v | None \<Rightarrow> Inl (AttributeError ''_Quantity#price''))"
  by (simp add: class_eqs method_defs py_getattr.simps split: option.splits)

subsection \<open>\<^verbatim>\<open>NonBlank\<close>\<close>

lemma nonblank_db2:
  "py_setattr (Suc (Suc n)) LineItem_db2 inst ''description'' (VStr s) =
     (if length (strip s) = 0 then (inst, Some (ValueError ''value cannot be empty or blank''))
      else (inst(''_NonBlank#description'' \<mapsto> VStr (strip s)), None))"
  by (simp add: class_eqs method_defs py_setattr.simps Let_def)

lemma nonblank_mb:
  "py_setattr (Suc (Suc n)) LineItem_mb inst ''description'' (VStr s) =
     (if length (strip s) = 0 then (inst, Some (ValueError ''value cannot be empty or blank''))
      else (inst(''_NonBlank#description'' \<mapsto> VStr (strip s)), None))"
  by (simp add: class_eqs method_defs py_setattr.simps Let_def)

lemma description_read_db2:
  "py_getattr (Suc (Suc n)) LineItem_db2 inst ''description'' =
     (case inst ''_NonBlank#description'' of Some v \<Rightarrow> Inr v
      | None \<Rightarrow> Inl (AttributeError ''_NonBlank#description''))"
  by (simp add: class_eqs method_defs py_getattr.simps)

lemma description_read_mb:
  "py_getattr (Suc (Suc n)) LineItem_mb inst ''description'' =
     (case inst ''_NonBlank#description'' of Some v \<Rightarrow> Inr v
      | None \<Rightarrow> Inl (AttributeError ''_NonBlank#description''))"
  by (simp add: class_eqs method_defs py_getattr.simps)

text \<open>
  Claim C6. In the two classes that declare \<^verbatim>\<open>description = NonBlank()\<close>, assigning a
  string \<open>s\<close> to \<^verbatim>\<open>description\<close> stores \<^verbatim>\<open>s.strip()\<close>, so a read after the assignment
  returns the stripped string; the assignment raises \<^verbatim>\<open>ValueError\<close> with the message
  \<^verbatim>\<open>value cannot be empty or blank\<close> if and only if \<^verbatim>\<open>s.strip()\<close> has length zero, and then
  stores nothing.
\<close>

theorem nonblank_stores_stripped:
  assumes "cls = LineItem_db2 \<or> cls = LineItem_mb"
  shows "py_setattr (Suc (Suc n)) cls inst ''description'' (VStr s) =
           (if length (strip s) = 0
            then (inst, Some (ValueError ''value cannot be empty or blank''))
            else (inst(''_NonBlank#description'' \<mapsto> VStr (strip s)), None))
         \<and> (snd (py_setattr (Suc (Suc n)) cls inst ''description'' (VStr s))
               = Some (ValueError ''value cannot be empty or blank'')
             \<longleftrightarrow> length (strip s) = 0)
         \<and> (length (strip s) \<noteq> 0 \<longrightarrow>
               py_getattr (Suc (Suc n)) cls
                 (fst (py_setattr (Suc (Suc n)) cls inst ''description'' (VStr s))) ''description''
               = Inr (VStr (strip s)))"
  using assms
  by (auto simp: nonblank_db2 nonblank_mb description_read_db2 description_read_mb)

theorem nonblank_stores_stripped_witness:
  "py_setattr 1000 LineItem_db2 Map.empty ''description'' (VStr ''  Golden raisins  '')
     = ([''_NonBlank#description'' \<mapsto> VStr ''Golden raisins''], None)
   \<and> py_getattr 1000 LineItem_db2
         (fst (py_setattr 1000 LineItem_db2 Map.empty ''description''
                 (VStr ''  Golden raisins  ''))) ''description''
     = Inr (VStr ''Golden raisins'')
   \<and> py_setattr 1000 LineItem_db2 Map.empty ''description'' (VStr ''   '')
     = (Map.empty, Some (ValueError ''value cannot be empty or blank''))"
proof -
  have n: "(1000::nat) = Suc (Suc 998)" by simp
  have a: "strip ''  Golden raisins  '' = ''Golden raisins''" and b: "strip ''   '' = []"
    by (simp_all add: strip_def isspace_def)
  note w1 = nonblank_stores_stripped
    [of LineItem_db2 998 Map.empty "''  Golden raisins  ''", unfolded n [symmetric]]
  note w2 = nonblank_stores_stripped
    [of LineItem_db2 998 Map.empty "''   ''", unfolded n [symmetric]]
  from w1 have s1:
    "py_setattr 1000 LineItem_db2 Map.empty ''description'' (VStr ''  Golden raisins  '')
       = ([''_NonBlank#description'' \<mapsto> VStr ''Golden raisins''], None)"
    by (simp add: a)
  from w1 [THEN conjunct2, THEN conjunct2] have r1:
    "py_getattr 1000 LineItem_db2
       (fst (py_setattr 1000 LineItem_db2 Map.empty ''description''
               (VStr ''  Golden raisins  ''))) ''description''
       = Inr (VStr ''Golden raisins'')"
    by (simp add: a)
  from w2 have s2:
    "py_setattr 1000 LineItem_db2 Map.empty ''description'' (VStr ''   '')
       = (Map.empty, Some (ValueError ''value cannot be empty or blank''))"
    by (simp add: b)
  from s1 r1 s2 show ?thesis by blast
qed

subsection \<open>Plain attributes, and what an assignment can change\<close>

lemma set_description_db2:
  "py_setattr (Suc (Suc n)) LineItem_db2 inst ''description'' v =
     (case v of
        VStr s \<Rightarrow>
          if length (strip s) = 0 then (inst, Some (ValueError ''value cannot be empty or blank''))
          else (inst(''_NonBlank#description'' \<mapsto> VStr (strip s)), None)
      | _ \<Rightarrow> (inst, Some (AttributeError ''strip'')))"
  by (simp add: class_eqs method_defs py_setattr.simps Let_def split: pyval.splits)

lemma set_description_mb:
  "py_setattr (Suc (Suc n)) LineItem_mb inst ''description'' v =
     (case v of
        VStr s \<Rightarrow>
          if length (strip s) = 0 then (inst, Some (ValueError ''value cannot be empty or blank''))
          else (inst(''_NonBlank#description'' \<mapsto> VStr (strip s)), None)
      | _ \<Rightarrow> (inst, Some (AttributeError ''strip'')))"
  by (simp add: class_eqs method_defs py_setattr.simps Let_def split: pyval.splits)

lemma set_plain:
  "py_setattr (Suc (Suc n)) LineItem_pb inst ''description'' v = (inst(''description'' \<mapsto> v), None)"
  "py_setattr (Suc (Suc n)) LineItem_pb inst ''price'' v = (inst(''price'' \<mapsto> v), None)"
  "py_setattr (Suc (Suc n)) LineItemClassic inst ''description'' v = (inst(''description'' \<mapsto> v), None)"
  "py_setattr (Suc (Suc n)) LineItemClassic inst ''price'' v = (inst(''price'' \<mapsto> v), None)"
  "py_setattr (Suc (Suc n)) LineItem_pf inst ''description'' v = (inst(''description'' \<mapsto> v), None)"
  "py_setattr (Suc (Suc n)) LineItemAuto_pf inst ''description'' v = (inst(''description'' \<mapsto> v), None)"
  "py_setattr (Suc (Suc n)) LineItem_db inst ''description'' v = (inst(''description'' \<mapsto> v), None)"
  "py_setattr (Suc (Suc n)) LineItemAuto_db inst ''description'' v = (inst(''description'' \<mapsto> v), None)"
  by (simp_all add: class_eqs py_setattr.simps)

lemma get_price_pb:
  "py_getattr (Suc (Suc n)) LineItem_pb inst ''price'' =
     (case inst ''price'' of Some v \<Rightarrow> Inr v | None \<Rightarrow> Inl (AttributeError ''price''))"
  by (simp add: class_eqs py_getattr.simps)

lemma get_price_classic:
  "py_getattr (Suc (Suc n)) LineItemClassic inst ''price'' =
     (case inst ''price'' of Some v \<Rightarrow> Inr v | None \<Rightarrow> Inl (AttributeError ''price''))"
  by (simp add: class_eqs py_getattr.simps)

section \<open>Numbers\<close>

text \<open>Only numbers compare with \<open>0\<close>, and a number is not both \<open>\<le> 0\<close> and \<open>> 0\<close>. (The
  float \<^verbatim>\<open>nan\<close> is neither.)\<close>

lemma py_gt0_number: "py_gt0 v = Inr b \<Longrightarrow> is_number v"
  by (cases v) simp_all

lemma py_le0_number: "py_le0 v = Inr b \<Longrightarrow> is_number v"
  by (cases v) simp_all

lemma float_le0_not_gt0: "float_le0 x \<Longrightarrow> \<not> float_gt0 x"
  by (cases x) auto

lemma py_le0_not_gt0: "py_le0 v = Inr True \<Longrightarrow> py_gt0 v = Inr False"
  by (cases v) (auto dest: float_le0_not_gt0)

lemma py_gt0_not_le0: "py_gt0 v = Inr True \<Longrightarrow> py_le0 v = Inr False"
  by (cases v) (auto dest: float_le0_not_gt0)

section \<open>Validation of \<^verbatim>\<open>weight\<close> and \<^verbatim>\<open>price\<close>\<close>

lemmas set_validated = set_weight_pb set_weight_classic set_weight_pf set_price_pf
  set_weight_pf_auto set_price_pf_auto set_weight_db set_price_db
  set_weight_db_auto set_price_db_auto set_weight_db2 set_price_db2
  set_weight_mb set_price_mb

lemmas init_defs = LineItem_pb_init_def LineItemClassic_init_def LineItem_pf_init_def
  LineItemAuto_pf_init_def LineItem_db_init_def LineItemAuto_db_init_def
  LineItem_db2_init_def LineItem_mb_init_def

text \<open>
  Claim C1 says that in each \<^verbatim>\<open>LineItem\<close> variant (property-based, set-only descriptor,
  \<^verbatim>\<open>Validated\<close> descriptor) assigning \<open>v \<le> 0\<close> to \<^verbatim>\<open>weight\<close> or \<^verbatim>\<open>price\<close> raises
  \<^verbatim>\<open>ValueError\<close>. In \<^verbatim>\<open>property_bulkfood.py\<close> only \<^verbatim>\<open>weight\<close> is a property; \<^verbatim>\<open>price\<close> is a
  plain attribute: assigning \<open>-5\<close> to it succeeds, and so does the constructor call
  \<^verbatim>\<open>LineItem('walnuts', 10, 0)\<close>.
\<close>

theorem price_unvalidated_counterexample:
  "snd (py_setattr 1000 LineItem_pb Map.empty ''price'' (VInt (- 5))) = None
   \<and> snd (LineItem_pb_init 1000 (VStr ''walnuts'') (VInt 10) (VInt 0)) = None"
  by (simp add: LineItem_pb_init_def and_then_def LineItem_pb_def py_setattr.simps
      eval_nat_numeral)

text \<open>
  Claim C1, amended. Let \<open>u\<close> be a value with \<open>u \<le> 0\<close> and \<open>v\<close>, \<open>v'\<close> values \<open>> 0\<close>, of any
  type. Assigning \<open>u\<close> to a validated attribute (\<^verbatim>\<open>weight\<close> in the two classes of
  \<^verbatim>\<open>property_bulkfood.py\<close>, \<^verbatim>\<open>weight\<close> or \<^verbatim>\<open>price\<close> in the six other \<^verbatim>\<open>LineItem\<close> classes)
  raises \<^verbatim>\<open>ValueError\<close> with the message \<^verbatim>\<open>value must be > 0\<close> and leaves the instance as it
  was; assigning \<open>v\<close> succeeds. In \<^verbatim>\<open>property_bulkfood.py\<close> \<^verbatim>\<open>price\<close> is not managed:
  assigning any value \<open>x\<close> to it succeeds. Each constructor raises that \<^verbatim>\<open>ValueError\<close> at
  the first of its assignments to a validated attribute that receives \<open>u\<close>, whatever the
  arguments \<open>x\<close> not yet assigned, and succeeds when every validated attribute receives a
  value \<open>> 0\<close>. (The constructors of the \<^verbatim>\<open>Validated\<close> variants first check the
  description, here a string \<open>s\<close> that is not blank.)
\<close>

theorem quantity_validated:
  assumes "(cls, name) \<in> set validated_attributes"
      and "py_le0 u = Inr True" and "py_gt0 v = Inr True" and "py_gt0 v' = Inr True"
      and "strip s \<noteq> []"
  shows "py_setattr (Suc (Suc n)) cls inst name u = (inst, Some (ValueError ''value must be > 0''))
         \<and> snd (py_setattr (Suc (Suc n)) cls inst name v) = None
         \<and> snd (py_setattr (Suc (Suc n)) LineItem_pb inst ''price'' x) = None
         \<and> snd (py_setattr (Suc (Suc n)) LineItemClassic inst ''price'' x) = None
         \<and> snd (LineItem_pb_init (Suc (Suc n)) description u x) = Some (ValueError ''value must be > 0'')
         \<and> snd (LineItem_pb_init (Suc (Suc n)) description v x) = None
         \<and> snd (LineItemClassic_init (Suc (Suc n)) description u x) = Some (ValueError ''value must be > 0'')
         \<and> snd (LineItemClassic_init (Suc (Suc n)) description v x) = None
         \<and> snd (LineItem_pf_init (Suc (Suc n)) description u x) = Some (ValueError ''value must be > 0'')
         \<and> snd (LineItem_pf_init (Suc (Suc n)) description v u) = Some (ValueError ''value must be > 0'')
         \<and> snd (LineItem_pf_init (Suc (Suc n)) description v v') = None
         \<and> snd (LineItemAuto_pf_init (Suc (Suc n)) description u x) = Some (ValueError ''value must be > 0'')
         \<and> snd (LineItemAuto_pf_init (Suc (Suc n)) description v u) = Some (ValueError ''value must be > 0'')
         \<and> snd (LineItemAuto_pf_init (Suc (Suc n)) description v v') = None
         \<and> snd (LineItem_db_init (Suc (Suc n)) description u x) = Some (ValueError ''value must be > 0'')
         \<and> snd (LineItem_db_init (Suc (Suc n)) description v u) = Some (ValueError ''value must be > 0'')
         \<and> snd (LineItem_db_init (Suc (Suc n)) description v v') = None
         \<and> snd (LineItemAuto_db_init (Suc (Suc n)) description x u) = Some (ValueError ''value must be > 0'')
         \<and> snd (LineItemAuto_db_init (Suc (Suc n)) description u v) = Some (ValueError ''value must be > 0'')
         \<and> snd (LineItemAuto_db_init (Suc (Suc n)) description v v') = None
         \<and> snd (LineItem_db2_init (Suc (Suc n)) (VStr s) x u) = Some (ValueError ''value must be > 0'')
         \<and> snd (LineItem_db2_init (Suc (Suc n)) (VStr s) u v) = Some (ValueError ''value must be > 0'')
         \<and> snd (LineItem_db2_init (Suc (Suc n)) (VStr s) v v') = None
         \<and> snd (LineItem_mb_init (Suc (Suc n)) (VStr s) x u) = Some (ValueError ''value must be > 0'')
         \<and> snd (LineItem_mb_init (Suc (Suc n)) (VStr s) u v) = Some (ValueError ''value must be > 0'')
         \<and> snd (LineItem_mb_init (Suc (Suc n)) (VStr s) v v') = None"
proof -
  note facts = assms(2-5) py_le0_not_gt0 [OF assms(2)] py_gt0_not_le0 [OF assms(3)]
    py_gt0_not_le0 [OF assms(4)]
  have a: "py_setattr (Suc (Suc n)) cls inst name u = (inst, Some (ValueError ''value must be > 0''))
           \<and> snd (py_setattr (Suc (Suc n)) cls inst name v) = None"
    using assms(1) facts unfolding validated_attributes_def
    by (auto simp: set_validated)
  have b: "snd (LineItem_pb_init (Suc (Suc n)) description u x) = Some (ValueError ''value must be > 0'')
           \<and> snd (LineItem_pb_init (Suc (Suc n)) description v x) = None
           \<and> snd (LineItemClassic_init (Suc (Suc n)) description u x) = Some (ValueError ''value must be > 0'')
           \<and> snd (LineItemClassic_init (Suc (Suc n)) description v x) = None
           \<and> snd (LineItem_pf_init (Suc (Suc n)) description u x) = Some (ValueError ''value must be > 0'')
           \<and> snd (LineItem_pf_init (Suc (Suc n)) description v u) = Some (ValueError ''value must be > 0'')
           \<and> snd (LineItem_pf_init (Suc (Suc n)) description v v') = None
           \<and> snd (LineItemAuto_pf_init (Suc (Suc n)) description u x) = Some (ValueError ''value must be > 0'')
           \<and> snd (LineItemAuto_pf_init (Suc (Suc n)) description v u) = Some (ValueError ''value must be > 0'')
           \<and> snd (LineItemAuto_pf_init (Suc (Suc n)) description v v') = None
           \<and> snd (LineItem_db_init (Suc (Suc n)) description u x) = Some (ValueError ''value must be > 0'')
           \<and> snd (LineItem_db_init (Suc (Suc n)) description v u) = Some (ValueError ''value must be > 0'')
           \<and> snd (LineItem_db_init (Suc (Suc n)) description v v') = None
           \<and> snd (LineItemAuto_db_init (Suc (Suc n)) description x u) = Some (ValueError ''value must be > 0'')
           \<and> snd (LineItemAuto_db_init (Suc (Suc n)) description u v) = Some (ValueError ''value must be > 0'')
           \<and> snd (LineItemAuto_db_init (Suc (Suc n)) description v v') = None
           \<and> snd (LineItem_db2_init (Suc (Suc n)) (VStr s) x u) = Some (ValueError ''value must be > 0'')
           \<and> snd (LineItem_db2_init (Suc (Suc n)) (VStr s) u v) = Some (ValueError ''value must be > 0'')
           \<and> snd (LineItem_db2_init (Suc (Suc n)) (VStr s) v v') = None
           \<and> snd (LineItem_mb_init (Suc (Suc n)) (VStr s) x u) = Some (ValueError ''value must be > 0'')
           \<and> snd (LineItem_mb_init (Suc (Suc n)) (VStr s) u v) = Some (ValueError ''value must be > 0'')
           \<and> snd (LineItem_mb_init (Suc (Suc n)) (VStr s) v v') = None"
    using facts
    by (simp add: init_defs and_then_def set_validated set_plain set_description_db2
        set_description_mb)
  from a b show ?thesis by (simp add: set_plain)
qed

theorem quantity_validated_witness:
  "(LineItem_db2, ''price'') \<in> set validated_attributes
   \<and> py_le0 (VInt 0) = Inr True
   \<and> py_gt0 (VFloat (Finite False 5052475831956275 (- 48))) = Inr True
   \<and> py_setattr 1000 LineItem_db2 Map.empty ''price'' (VInt 0)
       = (Map.empty, Some (ValueError ''value must be > 0''))
   \<and> snd (py_setattr 1000 LineItem_db2 Map.empty ''price'' (VFloat (Finite False 5052475831956275 (- 48)))) = None
   \<and> snd (LineItem_db2_init 1000 (VStr ''Golden raisins'') (VInt 0) (VFloat (Finite False 5052475831956275 (- 48))))
       = Some (ValueError ''value must be > 0'')
   \<and> snd (LineItem_db2_init 1000 (VStr ''Golden raisins'') (VInt 10) (VFloat (Finite False 5052475831956275 (- 48)))) = None"
proof -
  have n: "(1000::nat) = Suc (Suc 998)" by simp
  have h: "(LineItem_db2, ''price'') \<in> set validated_attributes"
    "py_le0 (VInt 0) = Inr True"
    "py_gt0 (VFloat (Finite False 5052475831956275 (- 48))) = Inr True"
    "py_gt0 (VInt 10) = Inr True"
    "strip ''Golden raisins'' \<noteq> []"
    by (simp_all add: validated_attributes_def strip_def isspace_def)
  note w = quantity_validated [OF h(1) h(2) h(3) h(3) h(5), where n = 998 and inst = Map.empty,
      folded n]
  note w' = quantity_validated [OF h(1) h(2) h(4) h(3) h(5), where n = 998 and inst = Map.empty,
      folded n]
  from w have
    "py_setattr 1000 LineItem_db2 Map.empty ''price'' (VInt 0)
       = (Map.empty, Some (ValueError ''value must be > 0''))"
    "snd (py_setattr 1000 LineItem_db2 Map.empty ''price'' (VFloat (Finite False 5052475831956275 (- 48)))) = None"
    "snd (LineItem_db2_init 1000 (VStr ''Golden raisins'') (VInt 0) (VFloat (Finite False 5052475831956275 (- 48))))
       = Some (ValueError ''value must be > 0'')"
    by blast+
  moreover from w' have
    "snd (LineItem_db2_init 1000 (VStr ''Golden raisins'') (VInt 10) (VFloat (Finite False 5052475831956275 (- 48)))) = None"
    by blast
  ultimately show ?thesis using h by blast
qed

section \<open>Reading what was assigned\<close>

lemmas set_quantity = set_weight_pf set_price_pf set_weight_pf_auto set_price_pf_auto
  set_weight_db set_price_db set_weight_db_auto set_price_db_auto
  set_weight_db2 set_price_db2 set_weight_mb set_price_mb

lemmas get_quantity = get_weight_pf get_price_pf get_weight_pf_auto get_price_pf_auto
  get_weight_db get_price_db get_weight_db_auto get_price_db_auto
  get_weight_db2 get_price_db2 get_weight_mb get_price_mb

text \<open>
  Claim C4. In every class whose \<^verbatim>\<open>weight\<close> and \<^verbatim>\<open>price\<close> are managed by a \<^verbatim>\<open>Quantity\<close>
  or \<^verbatim>\<open>QuantityAuto\<close> descriptor or by a property of the \<^verbatim>\<open>quantity\<close> or
  \<^verbatim>\<open>quantity_auto\<close> factory, for every instance and every value \<open>v > 0\<close> (an integer, a
  boolean or a float), setting the attribute to \<open>v\<close> succeeds and reading it afterwards
  on that instance returns exactly \<open>v\<close>.
\<close>

theorem set_then_get:
  assumes "cls \<in> set quantity_classes" and "name = ''weight'' \<or> name = ''price''"
      and "py_gt0 v = Inr True"
  shows "snd (py_setattr (Suc (Suc n)) cls inst name v) = None
         \<and> py_getattr (Suc (Suc n)) cls
               (fst (py_setattr (Suc (Suc n)) cls inst name v)) name = Inr v"
  using assms py_gt0_not_le0 [OF assms(3)] unfolding quantity_classes_def
  by (auto simp: set_quantity get_quantity)

theorem set_then_get_witness:
  "LineItemAuto_db \<in> set quantity_classes
   \<and> py_gt0 (VFloat (Finite False 5052475831956275 (- 48))) = Inr True
   \<and> snd (py_setattr 1000 LineItemAuto_db Map.empty ''price'' (VFloat (Finite False 5052475831956275 (- 48)))) = None
   \<and> py_getattr 1000 LineItemAuto_db
         (fst (py_setattr 1000 LineItemAuto_db Map.empty ''price'' (VFloat (Finite False 5052475831956275 (- 48))))) ''price''
       = Inr (VFloat (Finite False 5052475831956275 (- 48)))"
proof -
  have c: "LineItemAuto_db \<in> set quantity_classes" by (simp add: quantity_classes_def)
  have p: "py_gt0 (VFloat (Finite False 5052475831956275 (- 48))) = Inr True" by simp
  have n: "Suc (Suc 998) = (1000::nat)" by simp
  from set_then_get [OF c _ p, where name = "''price''" and n = 998 and inst = Map.empty,
      unfolded n] c p
  show ?thesis by simp
qed

section \<open>Access through the class, through an instance, and shadowing\<close>

lemma class_getattr_descr:
  "map_of ns name = Some (VDescr d) \<Longrightarrow> class_getattr depth ns name = Inr (VDescr d)"
  by (cases "dclass d") (simp_all add: class_getattr_def method_defs)

lemma getattr_storage:
  assumes "map_of ns name = Some (VDescr d)" and "has_get (dclass d)"
      and "map_of ns (storage_name d) = None" and "inst (storage_name d) = Some v"
  shows "py_getattr (Suc (Suc n)) ns inst name = Inr v"
  using assms by (cases "dclass d") (simp_all add: py_getattr.simps method_defs)

lemma get_descriptor_classes_cases:
  assumes "cls \<in> set get_descriptor_classes" and "map_of cls name = Some (VDescr d)"
  shows "has_get (dclass d) \<and> map_of cls (storage_name d) = None"
  using assms unfolding get_descriptor_classes_def
  by (auto simp: class_eqs split: if_splits)

text \<open>
  Claim C5. Reading a managed attribute through the class returns the descriptor
  instance bound to it (for any class namespace \<open>ns\<close>). Reading it through an instance of
  a class whose descriptors define \<^verbatim>\<open>__get__\<close> returns the value held in the instance's
  storage attribute, the one named by the descriptor's \<^verbatim>\<open>storage_name\<close>. In the set-only
  \<^verbatim>\<open>Quantity\<close> variant the storage name is the attribute's own name: \<^verbatim>\<open>__set__\<close> writes the
  instance attribute of that name, a read then returns it instead of the descriptor,
  and a read on an instance without it returns the descriptor.
\<close>

theorem aliasing_and_shadowing:
  "(map_of ns name = Some (VDescr d) \<longrightarrow> class_getattr depth ns name = Inr (VDescr d))
   \<and> (cls \<in> set get_descriptor_classes \<and> map_of cls name = Some (VDescr d)
        \<and> inst (storage_name d) = Some v
       \<longrightarrow> py_getattr (Suc (Suc n)) cls inst name = Inr v)
   \<and> storage_name (Quantity_db_init ''weight'') = ''weight''
   \<and> storage_name (Quantity_db_init ''price'') = ''price''
   \<and> (0 < i \<and> (attr = ''weight'' \<or> attr = ''price'') \<longrightarrow>
        py_setattr (Suc m) LineItem_db self attr (VInt i) = (self(attr \<mapsto> VInt i), None)
        \<and> py_getattr (Suc m) LineItem_db (self(attr \<mapsto> VInt i)) attr = Inr (VInt i)
        \<and> (self attr = None \<longrightarrow>
             py_getattr (Suc m) LineItem_db self attr = Inr (VDescr (Quantity_db_init attr))))"
  using getattr_storage get_descriptor_classes_cases
  by (auto simp: class_getattr_descr Quantity_db_init_def LineItem_db_def
      py_getattr.simps py_setattr.simps method_defs)

theorem aliasing_and_shadowing_witness:
  "map_of LineItem_db2 ''weight''
     = Some (VDescr \<lparr>dclass = Quantity, storage_name = ''_Quantity#weight''\<rparr>)
   \<and> class_getattr 1000 LineItem_db2 ''weight''
     = Inr (VDescr \<lparr>dclass = Quantity, storage_name = ''_Quantity#weight''\<rparr>)
   \<and> LineItem_db2 \<in> set get_descriptor_classes
   \<and> py_getattr 1000 LineItem_db2 [''_Quantity#weight'' \<mapsto> VInt 10] ''weight'' = Inr (VInt 10)
   \<and> py_setattr 1000 LineItem_db Map.empty ''weight'' (VInt 10) = ([''weight'' \<mapsto> VInt 10], None)
   \<and> py_getattr 1000 LineItem_db [''weight'' \<mapsto> VInt 10] ''weight'' = Inr (VInt 10)
   \<and> py_getattr 1000 LineItem_db Map.empty ''weight''
     = Inr (VDescr \<lparr>dclass = Quantity_db, storage_name = ''weight''\<rparr>)"
proof -
  have m: "map_of LineItem_db2 ''weight''
             = Some (VDescr \<lparr>dclass = Quantity, storage_name = ''_Quantity#weight''\<rparr>)"
    by (simp add: LineItem_db2_eq)
  have c: "LineItem_db2 \<in> set get_descriptor_classes"
    by (simp add: get_descriptor_classes_def)
  have n: "Suc (Suc 998) = (1000::nat)" "Suc 999 = (1000::nat)" by simp_all
  note w = aliasing_and_shadowing
    [where ns = LineItem_db2 and name = "''weight''"
       and d = "\<lparr>dclass = Quantity, storage_name = ''_Quantity#weight''\<rparr>"
       and depth = 1000 and cls = LineItem_db2
       and inst = "[''_Quantity#weight'' \<mapsto> VInt 10]" and v = "VInt 10" and n = 998
       and m = 999 and i = 10 and attr = "''weight''" and self = Map.empty, unfolded n]
  from w m c show ?thesis by (simp add: Quantity_db_init_def)
qed

section \<open>Automatic storage names\<close>

subsection \<open>Decimal digits\<close>

lemma digit_code: "n < 10 \<Longrightarrow> (of_char (''0123456789'' ! n) :: nat) = 48 + n"
proof -
  assume "n < 10"
  then consider "n = 0" | "n = 1" | "n = 2" | "n = 3" | "n = 4" | "n = 5" | "n = 6"
    | "n = 7" | "n = 8" | "n = 9"
    by atomize_elim arith
  then show ?thesis by cases simp_all
qed

lemma str_nat_nonempty: "str_nat n \<noteq> []"
  by (subst str_nat.simps) simp

lemma str_nat_inject: "str_nat n = str_nat m \<Longrightarrow> n = m"
proof (induction n arbitrary: m rule: str_nat.induct)
  case (1 n)
  show ?case
  proof (cases "n < 10")
    case n: True
    show ?thesis
    proof (cases "m < 10")
      case True
      with n "1.prems" have "''0123456789'' ! n = ''0123456789'' ! m"
        by (simp add: str_nat.simps [of n] str_nat.simps [of m])
      then have "(of_char (''0123456789'' ! n) :: nat) = of_char (''0123456789'' ! m)" by simp
      with n True show ?thesis by (simp add: digit_code)
    next
      case False
      with n "1.prems" str_nat_nonempty [of "m div 10"] show ?thesis
        by (simp add: str_nat.simps [of n] str_nat.simps [of m])
    qed
  next
    case n: False
    show ?thesis
    proof (cases "m < 10")
      case True
      with n "1.prems" str_nat_nonempty [of "n div 10"] show ?thesis
        by (simp add: str_nat.simps [of n] str_nat.simps [of m])
    next
      case False
      with n "1.prems" have e: "str_nat (n div 10) = str_nat (m div 10)"
        and d: "''0123456789'' ! (n mod 10) = ''0123456789'' ! (m mod 10)"
        by (simp_all add: str_nat.simps [of n] str_nat.simps [of m])
      from e n have q: "n div 10 = m div 10" by (rule "1.IH" [rotated])
      from d have "(of_char (''0123456789'' ! (n mod 10)) :: nat) = of_char (''0123456789'' ! (m mod 10))"
        by simp
      then have r: "n mod 10 = m mod 10" by (simp add: digit_code)
      from q r show ?thesis by (metis div_mult_mod_eq)
    qed
  qed
qed

subsection \<open>Sequences of constructor calls\<close>

text \<open>The three constructors read the counter of the class, name the descriptor after
  the class and the counter, and leave the class with its own counter, one higher.\<close>

lemma AutoStorage_init_Inr:
  "\<forall>st c d st'. AutoStorage_init st c = Inr (d, st') \<longrightarrow>
     (\<exists>k. get_counter st c = Some k
       \<and> d = \<lparr>dclass = c, storage_name = ''_'' @ cls_name c @ ''#'' @ str_nat k\<rparr>
       \<and> st' = st(c \<mapsto> Suc k))"
  by (auto simp: AutoStorage_init_def Let_def split: option.splits)

lemma new_descriptor_Inr:
  "\<forall>st c d st'. new_descriptor st c = Inr (d, st') \<longrightarrow>
     (\<exists>k. get_counter st c = Some k
       \<and> d = \<lparr>dclass = c, storage_name = ''_'' @ cls_name c @ ''#'' @ str_nat k\<rparr>
       \<and> st' = st(c \<mapsto> Suc k))"
  using AutoStorage_init_Inr by (auto simp: new_descriptor_def split: if_splits)

lemma QuantityAuto_init_Inr:
  "\<forall>st c d st'. QuantityAuto_init st c = Inr (d, st') \<longrightarrow>
     (\<exists>k. get_counter st c = Some k
       \<and> d = \<lparr>dclass = c, storage_name = ''_'' @ cls_name c @ ''#'' @ str_nat k\<rparr>
       \<and> st' = st(c \<mapsto> Suc k))"
  by (auto simp: QuantityAuto_init_def Let_def split: option.splits)

lemma get_counter_own: "get_counter (st(c \<mapsto> k)) c = Some k"
  by (cases c) (simp_all add: get_counter_def)

lemma get_counter_mono:
  assumes "get_counter st c = Some k" and "get_counter (st(c \<mapsto> Suc k)) c' = Some m'"
  shows "\<exists>m. get_counter st c' = Some m \<and> m \<le> m'"
  using assms
  by (cases c; cases c') (auto simp: get_counter_def split: option.splits if_splits)

lemma constructions_lower:
  assumes init: "\<forall>st c d st'. init st c = Inr (d, st') \<longrightarrow>
           (\<exists>k. get_counter st c = Some k
             \<and> d = \<lparr>dclass = c, storage_name = ''_'' @ cls_name c @ ''#'' @ str_nat k\<rparr>
             \<and> st' = st(c \<mapsto> Suc k))"
  shows "(k', d') \<in> set (constructions init st cs) \<Longrightarrow>
         \<exists>m. get_counter st (dclass d') = Some m \<and> m \<le> k'"
proof (induction cs arbitrary: st)
  case Nil
  then show ?case by simp
next
  case (Cons c cs)
  show ?case
  proof (cases "init st c")
    case (Inl e)
    with Cons show ?thesis by simp
  next
    case (Inr p)
    obtain d st' where p: "p = (d, st')" by (cases p)
    from init [rule_format, OF Inr [unfolded p]] obtain k where k: "get_counter st c = Some k"
      "d = \<lparr>dclass = c, storage_name = ''_'' @ cls_name c @ ''#'' @ str_nat k\<rparr>"
      "st' = st(c \<mapsto> Suc k)" by blast
    from Cons.prems Inr p k have "(k', d') = (k, d) \<or> (k', d') \<in> set (constructions init st' cs)"
      by simp
    then show ?thesis
    proof
      assume "(k', d') = (k, d)"
      with k show ?thesis by simp
    next
      assume "(k', d') \<in> set (constructions init st' cs)"
      from Cons.IH [OF this] obtain m' where m': "get_counter st' (dclass d') = Some m'" "m' \<le> k'"
        by blast
      from get_counter_mono [OF k(1) m'(1) [unfolded k(3)]] m'(2) show ?thesis by auto
    qed
  qed
qed

lemma constructions_form:
  assumes init: "\<forall>st c d st'. init st c = Inr (d, st') \<longrightarrow>
           (\<exists>k. get_counter st c = Some k
             \<and> d = \<lparr>dclass = c, storage_name = ''_'' @ cls_name c @ ''#'' @ str_nat k\<rparr>
             \<and> st' = st(c \<mapsto> Suc k))"
  shows "(k, d) \<in> set (constructions init st cs) \<Longrightarrow>
         storage_name d = ''_'' @ cls_name (dclass d) @ ''#'' @ str_nat k"
proof (induction cs arbitrary: st)
  case Nil
  then show ?case by simp
next
  case (Cons c cs)
  show ?case
  proof (cases "init st c")
    case (Inl e)
    with Cons show ?thesis by simp
  next
    case (Inr p)
    obtain d0 st' where p: "p = (d0, st')" by (cases p)
    from init [rule_format, OF Inr [unfolded p]] obtain k0 where k: "get_counter st c = Some k0"
      "d0 = \<lparr>dclass = c, storage_name = ''_'' @ cls_name c @ ''#'' @ str_nat k0\<rparr>"
      "st' = st(c \<mapsto> Suc k0)" by blast
    from Cons.prems Inr p k have "(k, d) = (k0, d0) \<or> (k, d) \<in> set (constructions init st' cs)"
      by simp
    then show ?thesis using k(2) Cons.IH by auto
  qed
qed

lemma constructions_sorted:
  assumes init: "\<forall>st c d st'. init st c = Inr (d, st') \<longrightarrow>
           (\<exists>k. get_counter st c = Some k
             \<and> d = \<lparr>dclass = c, storage_name = ''_'' @ cls_name c @ ''#'' @ str_nat k\<rparr>
             \<and> st' = st(c \<mapsto> Suc k))"
  shows "sorted_wrt (\<lambda>(k, d) (k', d'). dclass d = dclass d' \<longrightarrow> k < k')
           (constructions init st cs)"
proof (induction cs arbitrary: st)
  case Nil
  then show ?case by simp
next
  case (Cons c cs)
  show ?case
  proof (cases "init st c")
    case (Inl e)
    with Cons show ?thesis by simp
  next
    case (Inr p)
    obtain d st' where p: "p = (d, st')" by (cases p)
    from init [rule_format, OF Inr [unfolded p]] obtain k where k: "get_counter st c = Some k"
      "d = \<lparr>dclass = c, storage_name = ''_'' @ cls_name c @ ''#'' @ str_nat k\<rparr>"
      "st' = st(c \<mapsto> Suc k)" by blast
    have "k < k'" if "(k', d') \<in> set (constructions init st' cs)" "dclass d' = c" for k' d'
    proof -
      from constructions_lower [OF init that(1)] that(2)
      obtain m where "get_counter st' c = Some m" "m \<le> k'" by auto
      with k(3) show ?thesis by (simp add: get_counter_own)
    qed
    then have head: "\<forall>x \<in> set (constructions init st' cs).
        (case (k, d) of (k, d) \<Rightarrow> \<lambda>(k', d'). dclass d = dclass d' \<longrightarrow> k < k') x"
      using k(2) by auto
    have "constructions init st (c # cs) = (k, d) # constructions init st' cs"
      using Inr p k(1) by simp
    then show ?thesis using head Cons.IH [of st'] by simp
  qed
qed

lemma sorted_wrt_distinct_map:
  "sorted_wrt (\<lambda>x y. f x \<noteq> f y) xs \<Longrightarrow> distinct (map f xs)"
  by (induction xs) auto

lemma get_counter_dom_db2:
  "\<forall>st c k. get_counter st c = Some k \<longrightarrow>
     dom st \<subseteq> {AutoStorage, Validated, Quantity, NonBlank} \<longrightarrow>
     c \<in> {AutoStorage, Validated, Quantity, NonBlank}"
proof (intro allI impI)
  fix st c k
  assume "get_counter st c = Some k" "dom st \<subseteq> {AutoStorage, Validated, Quantity, NonBlank}"
  then show "c \<in> {AutoStorage, Validated, Quantity, NonBlank}"
    by (cases c) (auto simp: get_counter_def split: option.splits)
qed

lemma get_counter_dom_db:
  "\<forall>st c k. get_counter st c = Some k \<longrightarrow> dom st \<subseteq> {QuantityAuto} \<longrightarrow> c \<in> {QuantityAuto}"
proof (intro allI impI)
  fix st c k
  assume "get_counter st c = Some k" "dom st \<subseteq> {QuantityAuto}"
  then show "c \<in> {QuantityAuto}"
    by (cases c) (auto simp: get_counter_def split: option.splits)
qed

lemma constructions_classes:
  assumes init: "\<forall>st c d st'. init st c = Inr (d, st') \<longrightarrow>
           (\<exists>k. get_counter st c = Some k
             \<and> d = \<lparr>dclass = c, storage_name = ''_'' @ cls_name c @ ''#'' @ str_nat k\<rparr>
             \<and> st' = st(c \<mapsto> Suc k))"
      and closed: "\<forall>st c k. get_counter st c = Some k \<longrightarrow> dom st \<subseteq> S \<longrightarrow> c \<in> S"
  shows "dom st \<subseteq> S \<Longrightarrow> (k, d) \<in> set (constructions init st cs) \<Longrightarrow> dclass d \<in> S"
proof (induction cs arbitrary: st)
  case Nil
  then show ?case by simp
next
  case (Cons c cs)
  show ?case
  proof (cases "init st c")
    case (Inl e)
    with Cons show ?thesis by simp
  next
    case (Inr p)
    obtain d0 st' where p: "p = (d0, st')" by (cases p)
    from init [rule_format, OF Inr [unfolded p]] obtain k0 where k: "get_counter st c = Some k0"
      "d0 = \<lparr>dclass = c, storage_name = ''_'' @ cls_name c @ ''#'' @ str_nat k0\<rparr>"
      "st' = st(c \<mapsto> Suc k0)" by blast
    from closed [rule_format, OF k(1) Cons.prems(1)] have c: "c \<in> S" .
    with Cons.prems(1) k(3) have dom': "dom st' \<subseteq> S" by auto
    from Cons.prems(2) Inr p k(1)
    have "(k, d) = (k0, d0) \<or> (k, d) \<in> set (constructions init st' cs)" by simp
    then show ?thesis using c k(2) Cons.IH [OF dom'] by auto
  qed
qed

lemma storage_name_inject_db2:
  "\<forall>c c' k k'. c \<in> {AutoStorage, Validated, Quantity, NonBlank} \<longrightarrow>
     c' \<in> {AutoStorage, Validated, Quantity, NonBlank} \<longrightarrow>
     ''_'' @ cls_name c @ ''#'' @ str_nat k = ''_'' @ cls_name c' @ ''#'' @ str_nat k' \<longrightarrow>
     c = c' \<and> k = k'"
  by (auto dest: str_nat_inject)

lemma constructions_distinct:
  assumes init: "\<forall>st c d st'. init st c = Inr (d, st') \<longrightarrow>
           (\<exists>k. get_counter st c = Some k
             \<and> d = \<lparr>dclass = c, storage_name = ''_'' @ cls_name c @ ''#'' @ str_nat k\<rparr>
             \<and> st' = st(c \<mapsto> Suc k))"
      and closed: "\<forall>st c k. get_counter st c = Some k \<longrightarrow> dom st \<subseteq> S \<longrightarrow> c \<in> S"
      and inj: "\<forall>c c' k k'. c \<in> S \<longrightarrow> c' \<in> S \<longrightarrow>
           ''_'' @ cls_name c @ ''#'' @ str_nat k = ''_'' @ cls_name c' @ ''#'' @ str_nat k' \<longrightarrow>
           c = c' \<and> k = k'"
      and dom: "dom st \<subseteq> S"
  shows "distinct (map (storage_name \<circ> snd) (constructions init st cs))"
proof -
  let ?tr = "constructions init st cs"
  have "sorted_wrt (\<lambda>x y. (storage_name \<circ> snd) x \<noteq> (storage_name \<circ> snd) y) ?tr"
  proof (rule sorted_wrt_mono_rel [OF _ constructions_sorted [OF init]])
    fix x y
    assume x: "x \<in> set ?tr" and y: "y \<in> set ?tr"
      and r: "(case x of (k, d) \<Rightarrow> \<lambda>(k', d'). dclass d = dclass d' \<longrightarrow> k < k') y"
    obtain k d where xe: "x = (k, d)" by (cases x)
    obtain k' d' where ye: "y = (k', d')" by (cases y)
    from x [unfolded xe]
    have fx: "storage_name d = ''_'' @ cls_name (dclass d) @ ''#'' @ str_nat k"
      by (rule constructions_form [OF init])
    from dom x [unfolded xe] have cx: "dclass d \<in> S"
      by (rule constructions_classes [OF init closed])
    from y [unfolded ye]
    have fy: "storage_name d' = ''_'' @ cls_name (dclass d') @ ''#'' @ str_nat k'"
      by (rule constructions_form [OF init])
    from dom y [unfolded ye] have cy: "dclass d' \<in> S"
      by (rule constructions_classes [OF init closed])
    show "(storage_name \<circ> snd) x \<noteq> (storage_name \<circ> snd) y"
    proof
      assume "(storage_name \<circ> snd) x = (storage_name \<circ> snd) y"
      with xe ye fx fy have "''_'' @ cls_name (dclass d) @ ''#'' @ str_nat k
          = ''_'' @ cls_name (dclass d') @ ''#'' @ str_nat k'" by simp
      from inj [rule_format, OF cx cy this] r xe ye show False by simp
    qed
  qed
  then show ?thesis by (rule sorted_wrt_distinct_map)
qed

lemma quantity_auto_calls_names:
  "map property_storage_name (quantity_auto_calls counter m)
     = map (\<lambda>k. ''_quantity_auto:'' @ str_nat k)
         [(case counter of None \<Rightarrow> 0 | Some c \<Rightarrow> Suc c) ..<
          (case counter of None \<Rightarrow> 0 | Some c \<Rightarrow> Suc c) + m]"
proof (induction m arbitrary: counter)
  case 0
  then show ?case by simp
next
  case (Suc m)
  let ?s = "case counter of None \<Rightarrow> 0 | Some c \<Rightarrow> Suc c"
  have q: "quantity_auto counter
             = (VProperty (qty_getter_auto (''_quantity_auto:'' @ str_nat ?s))
                  (qty_setter_auto (''_quantity_auto:'' @ str_nat ?s)), Some ?s)"
    by (cases counter) (simp_all add: quantity_auto_def Let_def)
  have u: "[?s ..< ?s + Suc m] = ?s # [Suc ?s ..< Suc ?s + m]"
    by (simp add: upt_conv_Cons)
  show ?case
    unfolding u using Suc.IH [of "Some ?s"] by (simp add: q)
qed

lemma quantity_auto_names_inj: "inj_on (\<lambda>k. ''_quantity_auto:'' @ str_nat k) A"
  by (auto simp: inj_on_def dest: str_nat_inject)

lemma db2_trace_name:
  assumes "(k, d) \<in> set (constructions new_descriptor db2_counters cs)"
  shows "\<exists>c \<in> {AutoStorage, Validated, Quantity, NonBlank}.
           storage_name d = ''_'' @ cls_name c @ ''#'' @ str_nat k"
proof -
  have "dom db2_counters \<subseteq> {AutoStorage, Validated, Quantity, NonBlank}"
    by (simp add: db2_counters_def)
  from this assms have "dclass d \<in> {AutoStorage, Validated, Quantity, NonBlank}"
    by (rule constructions_classes [OF new_descriptor_Inr get_counter_dom_db2])
  moreover from assms have "storage_name d = ''_'' @ cls_name (dclass d) @ ''#'' @ str_nat k"
    by (rule constructions_form [OF new_descriptor_Inr])
  ultimately show ?thesis by blast
qed

lemma db_trace_name:
  assumes "(k, d) \<in> set (constructions QuantityAuto_init db_counters cs)"
  shows "storage_name d = ''_QuantityAuto#'' @ str_nat k"
proof -
  have "dom db_counters \<subseteq> {QuantityAuto}"
    by (simp add: db_counters_def)
  from this assms have "dclass d \<in> {QuantityAuto}"
    by (rule constructions_classes [OF QuantityAuto_init_Inr get_counter_dom_db])
  moreover from assms have "storage_name d = ''_'' @ cls_name (dclass d) @ ''#'' @ str_nat k"
    by (rule constructions_form [OF QuantityAuto_init_Inr])
  ultimately show ?thesis by simp
qed

lemma families_disjoint:
  "set (map (storage_name \<circ> snd) (constructions new_descriptor db2_counters cs))
     \<inter> set (map (storage_name \<circ> snd) (constructions QuantityAuto_init db_counters cs')) = {}"
  "set (map (storage_name \<circ> snd) (constructions new_descriptor db2_counters cs))
     \<inter> set (map property_storage_name (quantity_auto_calls None m)) = {}"
  "set (map (storage_name \<circ> snd) (constructions QuantityAuto_init db_counters cs'))
     \<inter> set (map property_storage_name (quantity_auto_calls None m)) = {}"
  using quantity_auto_calls_names [of None m]
  by (auto dest!: db2_trace_name db_trace_name)

text \<open>
  Claim C3 says that every automatic storage name has the form \<^verbatim>\<open>'_<ClassName>#<k>'\<close>, the
  names of the \<^verbatim>\<open>quantity_auto\<close> factory included. The factory formats its names with
  \<^verbatim>\<open>'_{}:{}'\<close>: the first property it makes stores under \<^verbatim>\<open>_quantity_auto:0\<close>, a name
  without \<^verbatim>\<open>#\<close>.
\<close>

theorem quantity_auto_name_counterexample:
  "property_storage_name (fst (quantity_auto None)) = ''_quantity_auto:0''
   \<and> CHR ''#'' \<notin> set (property_storage_name (fst (quantity_auto None)))"
  by (simp add: quantity_auto_def Let_def)

text \<open>
  Claim C3, amended. Automatic storage names are unique. In any sequence \<open>cs\<close> of
  constructor calls after \<^verbatim>\<open>descriptor_bulkfood2.py\<close> is loaded (\<^verbatim>\<open>AutoStorage\<close> and its
  subclasses), and in any such sequence \<open>cs'\<close> after \<^verbatim>\<open>descriptor_bulkfood.py\<close> is loaded
  (\<^verbatim>\<open>QuantityAuto\<close>), every descriptor built gets the storage name \<^verbatim>\<open>'_<ClassName>#<k>'\<close>
  where \<open>k\<close> is the counter its constructor read, \<open>k\<close> is strictly increasing over the
  constructions of one class, and the names are pairwise distinct. The \<open>m\<close> first calls
  of \<^verbatim>\<open>quantity_auto()\<close> give the names \<^verbatim>\<open>'_quantity_auto:<k>'\<close> for \<open>k = 0, ..., m - 1\<close>,
  pairwise distinct. No name made by one of the three mechanisms is made by another. So
  two managed attributes declared in one class never share a storage attribute.
\<close>

theorem storage_names_unique:
  "(\<forall>(k, d) \<in> set (constructions new_descriptor db2_counters cs).
      storage_name d = ''_'' @ cls_name (dclass d) @ ''#'' @ str_nat k)
   \<and> sorted_wrt (\<lambda>(k, d) (k', d'). dclass d = dclass d' \<longrightarrow> k < k')
        (constructions new_descriptor db2_counters cs)
   \<and> distinct (map (storage_name \<circ> snd) (constructions new_descriptor db2_counters cs))
   \<and> (\<forall>(k, d) \<in> set (constructions QuantityAuto_init db_counters cs').
      storage_name d = ''_'' @ cls_name (dclass d) @ ''#'' @ str_nat k)
   \<and> sorted_wrt (\<lambda>(k, d) (k', d'). dclass d = dclass d' \<longrightarrow> k < k')
        (constructions QuantityAuto_init db_counters cs')
   \<and> distinct (map (storage_name \<circ> snd) (constructions QuantityAuto_init db_counters cs'))
   \<and> map property_storage_name (quantity_auto_calls None m)
        = map (\<lambda>k. ''_quantity_auto:'' @ str_nat k) [0..<m]
   \<and> distinct (map property_storage_name (quantity_auto_calls None m))
   \<and> set (map (storage_name \<circ> snd) (constructions new_descriptor db2_counters cs))
        \<inter> set (map (storage_name \<circ> snd) (constructions QuantityAuto_init db_counters cs')) = {}
   \<and> set (map (storage_name \<circ> snd) (constructions new_descriptor db2_counters cs))
        \<inter> set (map property_storage_name (quantity_auto_calls None m)) = {}
   \<and> set (map (storage_name \<circ> snd) (constructions QuantityAuto_init db_counters cs'))
        \<inter> set (map property_storage_name (quantity_auto_calls None m)) = {}"
proof -
  have a1: "\<forall>(k, d) \<in> set (constructions new_descriptor db2_counters cs).
      storage_name d = ''_'' @ cls_name (dclass d) @ ''#'' @ str_nat k"
    using constructions_form [OF new_descriptor_Inr] by blast
  have a2: "sorted_wrt (\<lambda>(k, d) (k', d'). dclass d = dclass d' \<longrightarrow> k < k')
        (constructions new_descriptor db2_counters cs)"
    by (rule constructions_sorted [OF new_descriptor_Inr])
  have a3: "distinct (map (storage_name \<circ> snd) (constructions new_descriptor db2_counters cs))"
    by (rule constructions_distinct [OF new_descriptor_Inr get_counter_dom_db2
          storage_name_inject_db2]) (simp_all add: db2_counters_def)
  have b1: "\<forall>(k, d) \<in> set (constructions QuantityAuto_init db_counters cs').
      storage_name d = ''_'' @ cls_name (dclass d) @ ''#'' @ str_nat k"
    using constructions_form [OF QuantityAuto_init_Inr] by blast
  have b2: "sorted_wrt (\<lambda>(k, d) (k', d'). dclass d = dclass d' \<longrightarrow> k < k')
        (constructions QuantityAuto_init db_counters cs')"
    by (rule constructions_sorted [OF QuantityAuto_init_Inr])
  have b3: "distinct (map (storage_name \<circ> snd) (constructions QuantityAuto_init db_counters cs'))"
    by (rule constructions_distinct [where S = "{QuantityAuto}", OF QuantityAuto_init_Inr
          get_counter_dom_db])
      (auto simp: db_counters_def dest: str_nat_inject)
  have c1: "map property_storage_name (quantity_auto_calls None m)
        = map (\<lambda>k. ''_quantity_auto:'' @ str_nat k) [0..<m]"
    using quantity_auto_calls_names [of None m] by simp
  have c2: "distinct (map property_storage_name (quantity_auto_calls None m))"
    unfolding c1 using quantity_auto_names_inj [of "{0..<m}"] by (simp add: distinct_map)
  note d = families_disjoint
  from a1 a2 a3 b1 b2 b3 c1 c2 d show ?thesis by blast
qed

theorem storage_names_unique_witness:
  "map (storage_name \<circ> snd) (constructions new_descriptor db2_counters [NonBlank, Quantity, Quantity])
     = [''_NonBlank#0'', ''_Quantity#0'', ''_Quantity#1'']
   \<and> map fst (constructions new_descriptor db2_counters [NonBlank, Quantity, Quantity]) = [0, 0, 1]
   \<and> distinct (map (storage_name \<circ> snd)
         (constructions new_descriptor db2_counters [NonBlank, Quantity, Quantity]))
   \<and> map property_storage_name (quantity_auto_calls None 2)
     = [''_quantity_auto:0'', ''_quantity_auto:1'']"
proof -
  have t: "constructions new_descriptor db2_counters [NonBlank, Quantity, Quantity]
             = [(0, \<lparr>dclass = NonBlank, storage_name = ''_NonBlank#0''\<rparr>),
                (0, \<lparr>dclass = Quantity, storage_name = ''_Quantity#0''\<rparr>),
                (1, \<lparr>dclass = Quantity, storage_name = ''_Quantity#1''\<rparr>)]"
    by (simp add: new_descriptor_def AutoStorage_init_def get_counter_def db2_counters_def)
  have u: "[0..<2] = [0, Suc 0]" by (simp add: upt_rec)
  from storage_names_unique [where cs = "[NonBlank, Quantity, Quantity]" and m = 2] t u
  show ?thesis by simp
qed

end
